theory Spec2Isabelle
  imports Main "HOL-Library.Multiset"
begin

section \<open>Values of the upstream API\<close>

text \<open>
  The program reads JSON documents with \<^verbatim>\<open>response.json()\<close> and inspects them
  dynamically. A JSON value is null, a boolean, a number, a string, a list or an object.
  Numbers are modelled as integers (a JSON float behaves like an integer in every test the
  program makes: it is falsy exactly when it is zero, it is hashable, and it is neither a
  mapping nor a sequence). An object is the parsed Python \<^verbatim>\<open>dict\<close>: an
  association list in insertion order whose keys are distinct; lookups go through
  \<open>map_of\<close>. A string is a list of bytes (UTF-8).
\<close>

datatype json =
    JNull
  | JBool bool
  | JNum int
  | JStr string
  | JList "json list"
  | JDict "(string \<times> json) list"

text \<open>The two exceptions the pipeline can raise on an unexpected shape.\<close>

datatype py_error = AttributeError | TypeError

text \<open>Sequencing of computations that may raise: the first exception wins.\<close>

definition ebind :: "py_error + 'a \<Rightarrow> ('a \<Rightarrow> py_error + 'b) \<Rightarrow> py_error + 'b" where
  "ebind m f = (case m of Inl e \<Rightarrow> Inl e | Inr x \<Rightarrow> f x)"

text \<open>Python truthiness (\<^verbatim>\<open>if x\<close>, \<^verbatim>\<open>not x\<close>) and \<^verbatim>\<open>x or y\<close>.\<close>

fun truthy :: "json \<Rightarrow> bool" where
  "truthy JNull = False"
| "truthy (JBool b) = b"
| "truthy (JNum n) = (n \<noteq> 0)"
| "truthy (JStr s) = (s \<noteq> [])"
| "truthy (JList xs) = (xs \<noteq> [])"
| "truthy (JDict d) = (d \<noteq> [])"

definition py_or :: "json \<Rightarrow> json \<Rightarrow> json" where
  "py_or a b = (if truthy a then a else b)"

text \<open>
  \<^verbatim>\<open>d.get(k, default)\<close> on a dict, and on an arbitrary value: only a dict has the
  method, every other JSON value raises \<^verbatim>\<open>AttributeError\<close>.
\<close>

definition dict_get :: "(string \<times> json) list \<Rightarrow> string \<Rightarrow> json \<Rightarrow> json" where
  "dict_get d k dflt = (case map_of d k of Some v \<Rightarrow> v | None \<Rightarrow> dflt)"

definition py_get :: "json \<Rightarrow> string \<Rightarrow> json \<Rightarrow> py_error + json" where
  "py_get x k dflt = (case x of JDict d \<Rightarrow> Inr (dict_get d k dflt) | _ \<Rightarrow> Inl AttributeError)"

text \<open>
  \<^verbatim>\<open>x[0]\<close> for a truthy \<open>x\<close> that is not a dict (the program wraps a dict into a
  one-element list before it indexes): the first element of a list, the first character of
  a string, \<^verbatim>\<open>TypeError\<close> for a number or a boolean. The empty cases are never
  reached (the program tests truthiness first); they are given the same error.
\<close>

fun py_first :: "json \<Rightarrow> py_error + json" where
  "py_first (JList (x # xs)) = Inr x"
| "py_first (JStr (c # cs)) = Inr (JStr [c])"
| "py_first _ = Inl TypeError"

text \<open>
  \<^verbatim>\<open>for x in v\<close>: a list yields its elements, a dict its keys, a string its
  characters; a number, a boolean or null is not iterable.
\<close>

fun py_iter :: "json \<Rightarrow> py_error + json list" where
  "py_iter (JList xs) = Inr xs"
| "py_iter (JDict d) = Inr (map (\<lambda>kv. JStr (fst kv)) d)"
| "py_iter (JStr s) = Inr (map (\<lambda>c. JStr [c]) s)"
| "py_iter _ = Inl TypeError"

section \<open>Dates and library functions\<close>

text \<open>
  A \<^verbatim>\<open>datetime.date\<close> is its proleptic Gregorian ordinal; dates compare as their
  ordinals do. The third-party date parser, the date formatter and the builtin
  \<^verbatim>\<open>str\<close> on values that are not strings are parameters of the model:
  \<open>date_parse s\<close> is \<^verbatim>\<open>dateutil.parser.parse(s).date()\<close>, with \<open>None\<close> when the
  parser raises one of the exceptions \<^verbatim>\<open>parse_fecha_json\<close> catches
  (\<^verbatim>\<open>ValueError\<close>, \<^verbatim>\<open>TypeError\<close>, \<^verbatim>\<open>OverflowError\<close>).
\<close>

type_synonym date = int

record biblioteca =
  date_parse :: "string \<Rightarrow> date option"
  date_strftime :: "date \<Rightarrow> string"
  str_of :: "json \<Rightarrow> string"

definition py_str :: "biblioteca \<Rightarrow> json \<Rightarrow> string" where
  "py_str L v = (case v of JStr s \<Rightarrow> s | _ \<Rightarrow> str_of L v)"

text \<open>
  \<^verbatim>\<open>parse_fecha_json\<close>: a falsy value is no date; the parser rejects every value
  that is not a string with \<^verbatim>\<open>TypeError\<close>, which is caught.
\<close>

definition parse_fecha_json :: "biblioteca \<Rightarrow> json \<Rightarrow> date option" where
  "parse_fecha_json L valor =
     (if \<not> truthy valor then None
      else (case valor of JStr s \<Rightarrow> date_parse L s | _ \<Rightarrow> None))"

definition formatear_fecha_salida :: "biblioteca \<Rightarrow> json \<Rightarrow> string" where
  "formatear_fecha_salida L valor =
     (case parse_fecha_json L valor of Some fecha \<Rightarrow> date_strftime L fecha | None \<Rightarrow> [])"

section \<open>Field extraction helpers\<close>

fun safe_get :: "json \<Rightarrow> string list \<Rightarrow> json" where
  "safe_get actual [] = (if actual \<noteq> JNull then actual else JStr [])"
| "safe_get actual (key # keys) =
     (case actual of
        JDict d \<Rightarrow> (case map_of d key of Some v \<Rightarrow> safe_get v keys | None \<Rightarrow> JStr [])
      | _ \<Rightarrow> JStr [])"

text \<open>
  The loop \<^verbatim>\<open>for campo in (...): resultado = valor.get(campo); if resultado: return ...\<close>
  shared by \<^verbatim>\<open>normalizar_texto\<close> and \<^verbatim>\<open>normalizar_moneda\<close>: the first truthy
  field, if any.
\<close>

fun primer_campo :: "(string \<times> json) list \<Rightarrow> string list \<Rightarrow> json option" where
  "primer_campo d [] = None"
| "primer_campo d (campo # campos) =
     (let resultado = dict_get d campo JNull
      in if truthy resultado then Some resultado else primer_campo d campos)"

definition CAMPOS_TEXTO :: "string list" where
  "CAMPOS_TEXTO = [''Nombre'', ''Descripcion'', ''DescripcionLarga'', ''DescripcionCorta'',
                   ''Glosa'', ''Valor'', ''Codigo'']"

definition CAMPOS_MONEDA :: "string list" where
  "CAMPOS_MONEDA = [''Nombre'', ''Descripcion'', ''DescripcionMoneda'', ''Codigo'',
                    ''CodigoMoneda'', ''Moneda'']"

fun normalizar_texto :: "biblioteca \<Rightarrow> json \<Rightarrow> string"
  and normalizar_texto_lista :: "biblioteca \<Rightarrow> json list \<Rightarrow> string" where
  "normalizar_texto L (JList xs) = normalizar_texto_lista L xs"
| "normalizar_texto L (JDict d) =
     (case primer_campo d CAMPOS_TEXTO of Some resultado \<Rightarrow> py_str L resultado | None \<Rightarrow> [])"
| "normalizar_texto L JNull = []"
| "normalizar_texto L valor = py_str L valor"
| "normalizar_texto_lista L [] = []"
| "normalizar_texto_lista L (elemento # resto) =
     (let resultado = normalizar_texto L elemento
      in if resultado \<noteq> [] then resultado else normalizar_texto_lista L resto)"

fun normalizar_moneda :: "json \<Rightarrow> json"
  and normalizar_moneda_lista :: "json list \<Rightarrow> json" where
  "normalizar_moneda (JList xs) = normalizar_moneda_lista xs"
| "normalizar_moneda (JDict d) =
     (case primer_campo d CAMPOS_MONEDA of Some resultado \<Rightarrow> resultado | None \<Rightarrow> JStr [])"
| "normalizar_moneda valor = py_or valor (JStr [])"
| "normalizar_moneda_lista [] = JStr []"
| "normalizar_moneda_lista (elemento # resto) =
     (let resultado = normalizar_moneda elemento
      in if truthy resultado then resultado else normalizar_moneda_lista resto)"

definition obtener_moneda :: "json \<Rightarrow> json \<Rightarrow> py_error + json" where
  "obtener_moneda oc primer_item =
     ebind (py_get oc ''Moneda'' JNull) (\<lambda>m.
       let moneda = normalizar_moneda m in
       if truthy moneda then Inr moneda
       else if truthy primer_item
         then ebind (py_get primer_item ''Moneda'' JNull) (\<lambda>m'. Inr (normalizar_moneda m'))
         else Inr (JStr []))"

definition obtener_fuente_financiamiento :: "biblioteca \<Rightarrow> json \<Rightarrow> py_error + string" where
  "obtener_fuente_financiamiento L oc =
     ebind (py_get oc ''FuenteFinanciamiento'' JNull) (\<lambda>v1.
       let fuente = normalizar_texto L v1 in
       if fuente \<noteq> [] then Inr fuente
       else ebind (py_get oc ''Financiamiento'' JNull) (\<lambda>v2.
         let fuente' = normalizar_texto L v2 in
         if fuente' \<noteq> [] then Inr fuente'
         else Inr (normalizar_texto L (safe_get oc [''Comprador'', ''FuenteFinanciamiento'']))))"

definition obtener_rut_proveedor :: "biblioteca \<Rightarrow> json \<Rightarrow> string" where
  "obtener_rut_proveedor L oc =
     (let rut = normalizar_texto L (safe_get oc [''Proveedor'', ''RutProveedor''])
      in if rut \<noteq> [] then rut
         else normalizar_texto L (safe_get oc [''Proveedor'', ''RutSucursal'']))"

section \<open>Row projection\<close>

text \<open>
  The accented letters of the column names, as their UTF-8 bytes.
\<close>

definition o_acute :: string where
  "o_acute = [CHR 0xC3, CHR 0xB3]"

definition i_acute :: string where
  "i_acute = [CHR 0xC3, CHR 0xAD]"

definition COLUMNAS :: "string list" where
  "COLUMNAS =
    [''C'' @ o_acute @ ''digo OC'',
     ''Nombre'',
     ''C'' @ o_acute @ ''digo Estado'',
     ''Descripci'' @ o_acute @ ''n'',
     ''C'' @ o_acute @ ''digo Licitaci'' @ o_acute @ ''n'',
     ''Tipo'',
     ''Moneda'',
     ''Fecha Creaci'' @ o_acute @ ''n'',
     ''Fecha Env'' @ i_acute @ ''o'',
     ''Fecha Aceptaci'' @ o_acute @ ''n'',
     ''Total'',
     ''Total Neto'',
     ''Proveedor'',
     ''Rut Proveedor'',
     ''Unidad Compradora'',
     ''Nombre Organismo'',
     ''Contacto Comprador'',
     ''Fuente Financiamiento'',
     ''Codigo categoria'',
     ''Categor'' @ i_acute @ ''a'',
     ''Codigo producto'']"

text \<open>
  A row is the Python dict \<^verbatim>\<open>fila\<close>: an association list in insertion order.
  \<^verbatim>\<open>fila.setdefault(k, v)\<close> adds the key only when it is absent.
\<close>

type_synonym fila = "(string \<times> json) list"

definition setdefault :: "fila \<Rightarrow> string \<Rightarrow> json \<Rightarrow> fila" where
  "setdefault f k v = (case map_of f k of Some _ \<Rightarrow> f | None \<Rightarrow> f @ [(k, v)])"

text \<open>
  \<^verbatim>\<open>primer_item.get(campo, "") if primer_item else ""\<close>.
\<close>

definition campo_item :: "json \<Rightarrow> string \<Rightarrow> py_error + json" where
  "campo_item primer_item campo =
     (if truthy primer_item then py_get primer_item campo (JStr []) else Inr (JStr []))"

text \<open>
  \<^verbatim>\<open>construir_fila_oc\<close>. The entries of the dict literal are evaluated in the order
  they are written, so the first entry that raises decides the exception. The lookups
  \<^verbatim>\<open>oc.get(...)\<close> after the first one cannot raise: \<open>oc\<close> is a dict by then.
\<close>

fun construir_fila_oc :: "biblioteca \<Rightarrow> json \<Rightarrow> py_error + fila" where
  "construir_fila_oc L (JDict oc) =
     (let fechas = py_or (dict_get oc ''Fechas'' JNull) (JDict []);
          items = py_or (dict_get oc ''Items'' JNull) (JDict []);
          listado_items0 =
            (case items of
               JDict it \<Rightarrow> py_or (dict_get it ''Listado'' JNull)
                             (py_or (dict_get it ''Item'' JNull) (JList []))
             | _ \<Rightarrow> py_or items (JList []));
          listado_items =
            (case listado_items0 of JDict _ \<Rightarrow> JList [listado_items0] | _ \<Rightarrow> listado_items0)
      in
      ebind (if truthy listado_items then py_first listado_items else Inr (JDict [])) (\<lambda>primer_item.
      ebind (obtener_moneda (JDict oc) primer_item) (\<lambda>moneda.
      ebind (py_get fechas ''FechaCreacion'' JNull) (\<lambda>f_creacion.
      ebind (py_get fechas ''FechaEnvio'' JNull) (\<lambda>f_envio.
      ebind (py_get fechas ''FechaAceptacion'' JNull) (\<lambda>f_aceptacion.
      ebind (obtener_fuente_financiamiento L (JDict oc)) (\<lambda>fuente.
      ebind (campo_item primer_item ''CodigoCategoria'') (\<lambda>codigo_categoria.
      ebind (campo_item primer_item ''Categoria'') (\<lambda>categoria.
      ebind (campo_item primer_item ''CodigoProducto'') (\<lambda>codigo_producto.
      Inr (foldl (\<lambda>f columna. setdefault f columna (JStr []))
        [(''C'' @ o_acute @ ''digo OC'', dict_get oc ''Codigo'' (JStr [])),
         (''Nombre'', dict_get oc ''Nombre'' (JStr [])),
         (''C'' @ o_acute @ ''digo Estado'', dict_get oc ''CodigoEstado'' (JStr [])),
         (''Descripci'' @ o_acute @ ''n'', dict_get oc ''Descripcion'' (JStr [])),
         (''C'' @ o_acute @ ''digo Licitaci'' @ o_acute @ ''n'',
            dict_get oc ''CodigoLicitacion'' (JStr [])),
         (''Tipo'', dict_get oc ''Tipo'' (JStr [])),
         (''Moneda'', moneda),
         (''Fecha Creaci'' @ o_acute @ ''n'', JStr (formatear_fecha_salida L f_creacion)),
         (''Fecha Env'' @ i_acute @ ''o'', JStr (formatear_fecha_salida L f_envio)),
         (''Fecha Aceptaci'' @ o_acute @ ''n'', JStr (formatear_fecha_salida L f_aceptacion)),
         (''Total'', dict_get oc ''Total'' (JStr [])),
         (''Total Neto'', dict_get oc ''TotalNeto'' (JStr [])),
         (''Proveedor'', safe_get (JDict oc) [''Proveedor'', ''Nombre'']),
         (''Rut Proveedor'', JStr (obtener_rut_proveedor L (JDict oc))),
         (''Unidad Compradora'', safe_get (JDict oc) [''Comprador'', ''NombreUnidad'']),
         (''Nombre Organismo'', safe_get (JDict oc) [''Comprador'', ''NombreOrganismo'']),
         (''Contacto Comprador'', safe_get (JDict oc) [''Comprador'', ''Nombre'']),
         (''Fuente Financiamiento'', JStr fuente),
         (''Codigo categoria'', codigo_categoria),
         (''Categor'' @ i_acute @ ''a'', categoria),
         (''Codigo producto'', codigo_producto)]
        COLUMNAS)))))))))))"
| "construir_fila_oc L _ = Inl AttributeError"

declare construir_fila_oc.simps [simp del]

section \<open>Requests, retries and the event trace\<close>

text \<open>
  A request is identified by its query parameters: a listing request carries the date, the
  organisation and the ticket, a detail request the identifier and the ticket. The
  upstream server is a parameter: \<open>srv params k\<close> is what attempt number \<open>k\<close>
  (counted from 0) of the request \<open>params\<close> meets, either an HTTP response or a
  \<^verbatim>\<open>requests.RequestException\<close>. The body of a response is \<open>None\<close> when it is
  not JSON (\<^verbatim>\<open>response.json()\<close> raises \<^verbatim>\<open>ValueError\<close>).
\<close>

datatype params =
    ListarParams date string string
  | DetalleParams json string

record response =
  status_code :: int
  cuerpo :: "json option"

datatype intento = Respuesta response | RequestException

type_synonym servidor = "params \<Rightarrow> nat \<Rightarrow> intento"

text \<open>
  The observable effects are recorded as a trace: each HTTP request that is issued and
  each \<^verbatim>\<open>time.sleep\<close>. A sleep is the back-off of the retry loop (with its length
  in seconds), the pacing delay of the listing phase (\<^verbatim>\<open>args.sleep\<close>) or the pacing
  delay of the detail phase (\<^verbatim>\<open>args.sleep_detail\<close> plus jitter). Logging and the
  progress display are not modelled (the progress display is the progress bar when
  \<^verbatim>\<open>tqdm\<close> is installed; without it the program logs every
  \<^verbatim>\<open>args.progress_every\<close> tasks, which is taken to be a positive number).
\<close>

datatype pausa = Backoff nat | PausaListado | PausaDetalle

datatype evento = Peticion params | Dormir pausa

fun es_peticion :: "evento \<Rightarrow> bool" where
  "es_peticion (Peticion p) = True"
| "es_peticion (Dormir d) = False"

text \<open>The number of HTTP requests a trace issues.\<close>

definition peticiones :: "evento list \<Rightarrow> nat" where
  "peticiones tr = length (filter es_peticion tr)"

text \<open>
  \<^verbatim>\<open>request_with_retries\<close>. The loop state is the attempt counter and the back-off
  \<open>wait\<close> (1, 2, 4, ... seconds). A status 200 returns the response; 429 and 5xx, and a
  transport exception, sleep and go round again; every other status returns
  \<^verbatim>\<open>None\<close> at once. The function returns the result together with the events of
  the call.
\<close>

function rwr_bucle ::
  "servidor \<Rightarrow> params \<Rightarrow> int \<Rightarrow> nat \<Rightarrow> nat \<Rightarrow> response option \<times> evento list" where
  "rwr_bucle srv params retries attempt wait =
     (if int attempt < retries then
        (case srv params attempt of
           Respuesta r \<Rightarrow>
             if status_code r = 200 then (Some r, [Peticion params])
             else if status_code r = 429 \<or> (500 \<le> status_code r \<and> status_code r < 600)
               then (case rwr_bucle srv params retries (attempt + 1) (wait * 2) of
                       (res, evs) \<Rightarrow> (res, Peticion params # Dormir (Backoff wait) # evs))
               else (None, [Peticion params])
         | RequestException \<Rightarrow>
             (case rwr_bucle srv params retries (attempt + 1) (wait * 2) of
                (res, evs) \<Rightarrow> (res, Peticion params # Dormir (Backoff wait) # evs)))
      else (None, []))"
  by pat_completeness auto
termination
  by (relation "measure (\<lambda>(srv, params, retries, attempt, wait). nat (retries - int attempt))") auto

declare rwr_bucle.simps [simp del]

definition request_with_retries ::
  "servidor \<Rightarrow> params \<Rightarrow> int \<Rightarrow> response option \<times> evento list" where
  "request_with_retries srv params retries = rwr_bucle srv params retries 0 1"

text \<open>A retryable failure: HTTP 429, any 5xx, or a transport exception.\<close>

fun reintentable :: "intento \<Rightarrow> bool" where
  "reintentable RequestException = True"
| "reintentable (Respuesta r) =
     (status_code r = 429 \<or> (500 \<le> status_code r \<and> status_code r < 600))"

section \<open>Configuration\<close>

text \<open>
  The command-line arguments the pipeline reads. The time-outs and the lengths of the
  pacing delays do not influence any result and are left out.
\<close>

record args =
  workers :: int
  retries :: int
  batch_size :: int

text \<open>
  \<^verbatim>\<open>rango_fechas\<close>: every day from \<open>desde\<close> to \<open>hasta\<close>, both included; and the
  grid of query cells \<^verbatim>\<open>[(dia, org) for dia in fechas for org in organismos]\<close>.
\<close>

definition rango_fechas :: "date \<Rightarrow> date \<Rightarrow> date list" where
  "rango_fechas desde hasta = [desde..hasta]"

definition combinaciones :: "string list \<Rightarrow> date \<Rightarrow> date \<Rightarrow> (date \<times> string) list" where
  "combinaciones organismos desde hasta =
     concat (map (\<lambda>dia. map (\<lambda>org. (dia, org)) organismos) (rango_fechas desde hasta))"

section \<open>Discovery\<close>

text \<open>
  Membership in the Python set \<^verbatim>\<open>vistos\<close> goes through hashing and equality: a
  list or a dict is unhashable (\<^verbatim>\<open>TypeError\<close>), and \<^verbatim>\<open>True\<close> equals
  \<^verbatim>\<open>1\<close>. The set is modelled as the set of the hash keys of its members.
\<close>

datatype hkey = HNone | HNum int | HStr string

fun py_hash :: "json \<Rightarrow> py_error + hkey" where
  "py_hash JNull = Inr HNone"
| "py_hash (JBool b) = Inr (HNum (if b then 1 else 0))"
| "py_hash (JNum n) = Inr (HNum n)"
| "py_hash (JStr s) = Inr (HStr s)"
| "py_hash (JList xs) = Inl TypeError"
| "py_hash (JDict d) = Inl TypeError"

text \<open>\<^verbatim>\<open>registro.get("Codigo") or registro.get("codigo")\<close>.\<close>

definition codigo_de :: "json \<Rightarrow> py_error + json" where
  "codigo_de registro =
     ebind (py_get registro ''Codigo'' JNull) (\<lambda>c.
       if truthy c then Inr c else py_get registro ''codigo'' JNull)"

text \<open>
  What both modes do with a response before they look at its entries:
  no response and a body that is not JSON yield nothing (\<open>None\<close>); otherwise
  \<^verbatim>\<open>payload.get("Listado") or []\<close>.
\<close>

definition listado_de :: "response option \<Rightarrow> py_error + json option" where
  "listado_de resp =
     (case resp of
        None \<Rightarrow> Inr None
      | Some r \<Rightarrow>
          (case cuerpo r of
             None \<Rightarrow> Inr None
           | Some payload \<Rightarrow>
               ebind (py_get payload ''Listado'' JNull) (\<lambda>l. Inr (Some (py_or l (JList []))))))"

text \<open>
  Sequential mode, the inner loop over the entries of one listing: each truthy identifier
  that is not in \<^verbatim>\<open>vistos\<close> is added to the set and appended to \<^verbatim>\<open>codigos\<close>.
\<close>

fun registrar :: "json list \<Rightarrow> json list \<times> hkey set \<Rightarrow> py_error + json list \<times> hkey set" where
  "registrar [] st = Inr st"
| "registrar (registro # resto) (codigos, vistos) =
     (case codigo_de registro of
        Inl e \<Rightarrow> Inl e
      | Inr codigo \<Rightarrow>
          if truthy codigo then
            (case py_hash codigo of
               Inl e \<Rightarrow> Inl e
             | Inr k \<Rightarrow>
                 if k \<notin> vistos then registrar resto (codigos @ [codigo], insert k vistos)
                 else registrar resto (codigos, vistos))
          else registrar resto (codigos, vistos))"

text \<open>
  Sequential mode, the loop over the query cells. A cell without a usable response is
  skipped with \<^verbatim>\<open>continue\<close>, before the pacing delay at the end of the loop body.
  An exception leaves the function (the caller, \<^verbatim>\<open>main\<close>, catches it).
\<close>

fun listar_secuencial ::
  "servidor \<Rightarrow> args \<Rightarrow> string \<Rightarrow> (date \<times> string) list \<Rightarrow> json list \<times> hkey set \<Rightarrow> evento list
     \<Rightarrow> (py_error + json list) \<times> evento list" where
  "listar_secuencial srv a ticket [] st tr = (Inr (fst st), tr)"
| "listar_secuencial srv a ticket ((dia, organismo) # resto) st tr =
     (case request_with_retries srv (ListarParams dia organismo ticket) (retries a) of
        (resp, evs) \<Rightarrow>
          (case listado_de resp of
             Inl e \<Rightarrow> (Inl e, tr @ evs)
           | Inr None \<Rightarrow> listar_secuencial srv a ticket resto st (tr @ evs)
           | Inr (Some listado) \<Rightarrow>
               (case ebind (py_iter listado) (\<lambda>regs. registrar regs st) of
                  Inl e \<Rightarrow> (Inl e, tr @ evs)
                | Inr st' \<Rightarrow>
                    listar_secuencial srv a ticket resto st' (tr @ evs @ [Dormir PausaListado]))))"

text \<open>
  Concurrent mode, the task \<^verbatim>\<open>procesar\<close> of one cell: it collects the truthy
  identifiers of the listing and sleeps the pacing delay whatever the response was. An
  exception raised while the payload is read leaves the task before the sleep.
\<close>

fun recolectar :: "json list \<Rightarrow> py_error + json list" where
  "recolectar [] = Inr []"
| "recolectar (registro # resto) =
     (case codigo_de registro of
        Inl e \<Rightarrow> Inl e
      | Inr codigo \<Rightarrow>
          (case recolectar resto of
             Inl e \<Rightarrow> Inl e
           | Inr rs \<Rightarrow> Inr (if truthy codigo then codigo # rs else rs)))"

definition procesar_listado ::
  "servidor \<Rightarrow> args \<Rightarrow> string \<Rightarrow> date \<times> string \<Rightarrow> (py_error + json list) \<times> evento list" where
  "procesar_listado srv a ticket combo =
     (case request_with_retries srv (ListarParams (fst combo) (snd combo) ticket) (retries a) of
        (resp, evs) \<Rightarrow>
          (case listado_de resp of
             Inl e \<Rightarrow> (Inl e, evs)
           | Inr None \<Rightarrow> (Inr [], evs @ [Dormir PausaListado])
           | Inr (Some listado) \<Rightarrow>
               (case ebind (py_iter listado) recolectar of
                  Inl e \<Rightarrow> (Inl e, evs)
                | Inr resultados \<Rightarrow> (Inr resultados, evs @ [Dormir PausaListado]))))"

text \<open>
  Concurrent mode, the main thread: the results are merged in completion order; a task
  that raised contributes nothing (\<^verbatim>\<open>except Exception: nuevos = []\<close>). The merge
  itself runs outside that handler, so an unhashable identifier raises out of it.
\<close>

fun fusionar :: "json list \<Rightarrow> json list \<times> hkey set \<Rightarrow> py_error + json list \<times> hkey set" where
  "fusionar [] st = Inr st"
| "fusionar (codigo # resto) (codigos, vistos) =
     (case py_hash codigo of
        Inl e \<Rightarrow> Inl e
      | Inr k \<Rightarrow>
          if k \<notin> vistos then fusionar resto (codigos @ [codigo], insert k vistos)
          else fusionar resto (codigos, vistos))"

fun fusionar_todos ::
  "json list list \<Rightarrow> json list \<times> hkey set \<Rightarrow> py_error + json list \<times> hkey set" where
  "fusionar_todos [] st = Inr st"
| "fusionar_todos (nuevos # resto) st =
     (case fusionar nuevos st of Inl e \<Rightarrow> Inl e | Inr st' \<Rightarrow> fusionar_todos resto st')"

definition nuevos_de :: "(py_error + json list) \<times> evento list \<Rightarrow> json list" where
  "nuevos_de r = (case fst r of Inl e \<Rightarrow> [] | Inr cs \<Rightarrow> cs)"

text \<open>
  The pool runs every submitted task to its end, also when the merge raises: the trace of a
  concurrent phase holds the events of all tasks, task by task in completion order (the
  interleaving of the workers is not modelled). \<open>completadas\<close> is the list of cells in
  the order \<^verbatim>\<open>as_completed\<close> yields them.
\<close>

definition listar_concurrente ::
  "servidor \<Rightarrow> args \<Rightarrow> string \<Rightarrow> (date \<times> string) list \<Rightarrow> (py_error + json list) \<times> evento list" where
  "listar_concurrente srv a ticket completadas =
     (let resultados = map (procesar_listado srv a ticket) completadas
      in (case fusionar_todos (map nuevos_de resultados) ([], {}) of
            Inl e \<Rightarrow> Inl e
          | Inr st \<Rightarrow> Inr (fst st),
          concat (map snd resultados)))"

text \<open>
  \<^verbatim>\<open>listar_oc_por_rango\<close>. The order in which the pool completes its tasks is the
  parameter \<open>orden\<close>, a function that rearranges the list of tasks.
\<close>

definition listar_oc_por_rango ::
  "servidor \<Rightarrow> args \<Rightarrow> string \<Rightarrow> string list \<Rightarrow> date \<Rightarrow> date
     \<Rightarrow> ((date \<times> string) list \<Rightarrow> (date \<times> string) list)
     \<Rightarrow> (py_error + json list) \<times> evento list" where
  "listar_oc_por_rango srv a ticket organismos desde_dt hasta_dt orden =
     (if workers a \<le> 1
      then listar_secuencial srv a ticket (combinaciones organismos desde_dt hasta_dt) ([], {}) []
      else listar_concurrente srv a ticket (orden (combinaciones organismos desde_dt hasta_dt)))"

section \<open>The batch sink\<close>

text \<open>
  The output file is absent (\<open>None\<close>) or a list of lines: the header line with the
  column names, and one line per row. The state of the sink is the three
  \<^verbatim>\<open>nonlocal\<close> variables of \<^verbatim>\<open>flush\<close> and the file; \<open>escrituras\<close> records,
  for every flush that opened the file, how many rows it wrote. Every row the sink receives
  was built by \<open>construir_fila_oc\<close>, so its keys are the field names the writer expects.
\<close>

datatype linea = Encabezado "string list" | Registro fila

record sumidero =
  escribir_header :: bool
  filas_batch :: "fila list"
  escritos :: nat
  archivo :: "linea list option"
  escrituras :: "nat list"

definition flush :: "sumidero \<Rightarrow> sumidero" where
  "flush s =
     (if filas_batch s = [] then s
      else \<lparr> escribir_header = False,
             filas_batch = [],
             escritos = escritos s + length (filas_batch s),
             archivo = Some ((case archivo s of None \<Rightarrow> [] | Some ls \<Rightarrow> ls)
                             @ (if escribir_header s then [Encabezado COLUMNAS] else [])
                             @ map Registro (filas_batch s)),
             escrituras = escrituras s @ [length (filas_batch s)] \<rparr>)"

text \<open>
  \<^verbatim>\<open>filas_batch.append(fila); if len(filas_batch) >= args.batch_size: flush()\<close>.
\<close>

definition aceptar :: "args \<Rightarrow> fila \<Rightarrow> sumidero \<Rightarrow> sumidero" where
  "aceptar a f s =
     (let s' = s\<lparr>filas_batch := filas_batch s @ [f]\<rparr>
      in if batch_size a \<le> int (length (filas_batch s')) then flush s' else s')"

text \<open>
  The state at the start of the fetch phase: an existing file has been removed.
\<close>

definition sumidero_inicial :: "linea list option \<Rightarrow> sumidero" where
  "sumidero_inicial previo =
     \<lparr> escribir_header = True, filas_batch = [], escritos = 0,
       archivo = (case previo of Some ls \<Rightarrow> None | None \<Rightarrow> None),
       escrituras = [] \<rparr>"

text \<open>The data rows of a file.\<close>

fun filas_de_linea :: "linea \<Rightarrow> fila list" where
  "filas_de_linea (Encabezado cs) = []"
| "filas_de_linea (Registro f) = [f]"

definition filas_de_archivo :: "linea list option \<Rightarrow> fila list" where
  "filas_de_archivo ar = (case ar of None \<Rightarrow> [] | Some ls \<Rightarrow> concat (map filas_de_linea ls))"

section \<open>Fetch\<close>

text \<open>
  What both modes do with the response to a detail request, up to the row. First the
  record is taken out of the envelope: no response, a body that is not JSON and an empty
  listing yield nothing (\<open>None\<close>); a listing that is a single object counts as a
  one-element list; otherwise the record is \<^verbatim>\<open>listado[0]\<close>.
\<close>

definition primer_registro :: "response option \<Rightarrow> py_error + json option" where
  "primer_registro resp =
     (case resp of
        None \<Rightarrow> Inr None
      | Some r \<Rightarrow>
          (case cuerpo r of
             None \<Rightarrow> Inr None
           | Some payload \<Rightarrow>
               ebind (py_get payload ''Listado'' JNull) (\<lambda>l.
                 let listado0 = py_or l (JList []);
                     listado = (case listado0 of JDict d \<Rightarrow> JList [listado0] | _ \<Rightarrow> listado0)
                 in if \<not> truthy listado then Inr None
                    else ebind (py_first listado) (\<lambda>oc. Inr (Some oc)))))"

text \<open>
  Then the validity filter and the projection: a creation date that is missing, unparsable
  or outside \<open>[desde_dt, hasta_dt]\<close> yields no row; otherwise the record is projected.
\<close>

definition validar_y_construir ::
  "biblioteca \<Rightarrow> date \<Rightarrow> date \<Rightarrow> json \<Rightarrow> py_error + fila option" where
  "validar_y_construir L desde_dt hasta_dt oc =
     (case parse_fecha_json L (safe_get oc [''Fechas'', ''FechaCreacion'']) of
        None \<Rightarrow> Inr None
      | Some fecha_creacion \<Rightarrow>
          if fecha_creacion < desde_dt \<or> fecha_creacion > hasta_dt then Inr None
          else ebind (construir_fila_oc L oc) (\<lambda>f. Inr (Some f)))"

definition procesar_respuesta ::
  "biblioteca \<Rightarrow> date \<Rightarrow> date \<Rightarrow> response option \<Rightarrow> py_error + fila option" where
  "procesar_respuesta L desde_dt hasta_dt resp =
     ebind (primer_registro resp) (\<lambda>ro.
       case ro of None \<Rightarrow> Inr None | Some oc \<Rightarrow> validar_y_construir L desde_dt hasta_dt oc)"

text \<open>
  Sequential mode, the loop over the identifiers. Every path that yields no row leaves the
  loop body with \<^verbatim>\<open>continue\<close>, before the pacing delay; an exception leaves the
  function, and the final flush with it.
\<close>

fun descargar_secuencial ::
  "biblioteca \<Rightarrow> servidor \<Rightarrow> args \<Rightarrow> string \<Rightarrow> date \<Rightarrow> date \<Rightarrow> json list \<Rightarrow> sumidero \<Rightarrow> evento list
     \<Rightarrow> py_error option \<times> sumidero \<times> evento list" where
  "descargar_secuencial L srv a ticket desde_dt hasta_dt [] s tr = (None, s, tr)"
| "descargar_secuencial L srv a ticket desde_dt hasta_dt (codigo # resto) s tr =
     (case request_with_retries srv (DetalleParams codigo ticket) (retries a) of
        (resp, evs) \<Rightarrow>
          (case procesar_respuesta L desde_dt hasta_dt resp of
             Inl e \<Rightarrow> (Some e, s, tr @ evs)
           | Inr None \<Rightarrow> descargar_secuencial L srv a ticket desde_dt hasta_dt resto s (tr @ evs)
           | Inr (Some f) \<Rightarrow>
               descargar_secuencial L srv a ticket desde_dt hasta_dt resto (aceptar a f s)
                 (tr @ evs @ [Dormir PausaDetalle])))"

text \<open>
  Concurrent mode, the task \<^verbatim>\<open>procesar\<close> of one identifier: the pacing delay is in
  a \<^verbatim>\<open>finally\<close> block and follows every outcome.
\<close>

definition procesar_detalle ::
  "biblioteca \<Rightarrow> servidor \<Rightarrow> args \<Rightarrow> string \<Rightarrow> date \<Rightarrow> date \<Rightarrow> json
     \<Rightarrow> (py_error + fila option) \<times> evento list" where
  "procesar_detalle L srv a ticket desde_dt hasta_dt codigo =
     (case request_with_retries srv (DetalleParams codigo ticket) (retries a) of
        (resp, evs) \<Rightarrow> (procesar_respuesta L desde_dt hasta_dt resp, evs @ [Dormir PausaDetalle]))"

text \<open>
  Concurrent mode, the main thread: a task that raised counts as no row
  (\<^verbatim>\<open>except Exception: fila = None\<close>); a truthy row goes to the sink.
\<close>

definition fila_de :: "(py_error + fila option) \<times> evento list \<Rightarrow> fila option" where
  "fila_de r = (case fst r of Inl e \<Rightarrow> None | Inr fo \<Rightarrow> fo)"

definition recibir :: "args \<Rightarrow> sumidero \<Rightarrow> fila option \<Rightarrow> sumidero" where
  "recibir a s fo = (case fo of None \<Rightarrow> s | Some f \<Rightarrow> if f \<noteq> [] then aceptar a f s else s)"

definition descargar_concurrente ::
  "biblioteca \<Rightarrow> servidor \<Rightarrow> args \<Rightarrow> string \<Rightarrow> date \<Rightarrow> date \<Rightarrow> json list \<Rightarrow> sumidero
     \<Rightarrow> sumidero \<times> evento list" where
  "descargar_concurrente L srv a ticket desde_dt hasta_dt completadas s =
     (let resultados = map (procesar_detalle L srv a ticket desde_dt hasta_dt) completadas
      in (foldl (recibir a) s (map fila_de resultados), concat (map snd resultados)))"

text \<open>
  \<^verbatim>\<open>descargar_detalle_y_escribir\<close>: remove an existing file, run the loop of the
  mode, flush what is left. \<open>previo\<close> is the file found at the output path. The result is
  the exception that ended the phase, if any, the final state of the sink and the trace.
\<close>

definition descargar_detalle_y_escribir ::
  "biblioteca \<Rightarrow> servidor \<Rightarrow> args \<Rightarrow> string \<Rightarrow> json list \<Rightarrow> date \<Rightarrow> date
     \<Rightarrow> (json list \<Rightarrow> json list) \<Rightarrow> linea list option
     \<Rightarrow> py_error option \<times> sumidero \<times> evento list" where
  "descargar_detalle_y_escribir L srv a ticket codigos desde_dt hasta_dt orden previo =
     (if workers a \<le> 1 then
        (case descargar_secuencial L srv a ticket desde_dt hasta_dt codigos
                (sumidero_inicial previo) [] of
           (Some e, s, tr) \<Rightarrow> (Some e, s, tr)
         | (None, s, tr) \<Rightarrow> (None, flush s, tr))
      else
        (case descargar_concurrente L srv a ticket desde_dt hasta_dt (orden codigos)
                (sumidero_inicial previo) of
           (s, tr) \<Rightarrow> (None, flush s, tr)))"

section \<open>The run\<close>

text \<open>
  The two phases as \<^verbatim>\<open>main\<close> chains them, after \<^verbatim>\<open>validar_rango\<close> has accepted
  the range: the exception that ended the run, if any, the file at the output path at the
  end, and the trace. When discovery raises, the fetch phase never starts and the file at
  the output path is left as it was. The list of organisations is a parameter
  (\<^verbatim>\<open>main\<close> passes the constant \<^verbatim>\<open>ORGANISMOS\<close>); the export of the table to
  a spreadsheet that follows is outside the model.
\<close>

definition ejecutar ::
  "biblioteca \<Rightarrow> servidor \<Rightarrow> args \<Rightarrow> string \<Rightarrow> string list \<Rightarrow> date \<Rightarrow> date
     \<Rightarrow> ((date \<times> string) list \<Rightarrow> (date \<times> string) list) \<Rightarrow> (json list \<Rightarrow> json list)
     \<Rightarrow> linea list option
     \<Rightarrow> py_error option \<times> linea list option \<times> evento list" where
  "ejecutar L srv a ticket organismos desde_dt hasta_dt orden_l orden_d previo =
     (case listar_oc_por_rango srv a ticket organismos desde_dt hasta_dt orden_l of
        (Inl e, tr) \<Rightarrow> (Some e, previo, tr)
      | (Inr codigos, tr) \<Rightarrow>
          (case descargar_detalle_y_escribir L srv a ticket codigos desde_dt hasta_dt orden_d previo of
             (err, s, tr') \<Rightarrow> (err, archivo s, tr @ tr')))"

section \<open>Notions used in the statements and proofs\<close>

text \<open>
  The sink has written the rows \<open>ws\<close>: the file is absent when there are none, and
  otherwise it is the header line followed by one line per row; the header flag and the
  counter agree.
\<close>

definition volcado :: "fila list \<Rightarrow> sumidero \<Rightarrow> bool" where
  "volcado ws s \<longleftrightarrow>
     archivo s = (if ws = [] then None else Some (Encabezado COLUMNAS # map Registro ws))
     \<and> escribir_header s = (ws = [])
     \<and> escritos s = length ws"

text \<open>
  The rows \<open>ws\<close> were written in full batches: the buffer is below the batch size, and
  every write so far had exactly the batch size.
\<close>

definition por_lotes :: "args \<Rightarrow> fila list \<Rightarrow> sumidero \<Rightarrow> bool" where
  "por_lotes a ws s \<longleftrightarrow>
     int (length (filas_batch s)) < batch_size a
     \<and> escrituras s = replicate (length ws div nat (batch_size a)) (nat (batch_size a))
     \<and> length ws mod nat (batch_size a) = 0"

text \<open>
  The outcome of the detail request for one identifier, and the rows a list of outcomes
  accepts, in order.
\<close>

definition resultado_detalle ::
  "biblioteca \<Rightarrow> servidor \<Rightarrow> args \<Rightarrow> string \<Rightarrow> date \<Rightarrow> date \<Rightarrow> json \<Rightarrow> py_error + fila option" where
  "resultado_detalle L srv a ticket desde_dt hasta_dt codigo =
     procesar_respuesta L desde_dt hasta_dt
       (fst (request_with_retries srv (DetalleParams codigo ticket) (retries a)))"

fun fila_aceptada :: "py_error + fila option \<Rightarrow> fila list" where
  "fila_aceptada (Inr (Some f)) = [f]"
| "fila_aceptada (Inr None) = []"
| "fila_aceptada (Inl e) = []"

definition filas_aceptadas ::
  "biblioteca \<Rightarrow> servidor \<Rightarrow> args \<Rightarrow> string \<Rightarrow> date \<Rightarrow> date \<Rightarrow> json list \<Rightarrow> fila list" where
  "filas_aceptadas L srv a ticket desde_dt hasta_dt tareas =
     concat (map (\<lambda>codigo. fila_aceptada (resultado_detalle L srv a ticket desde_dt hasta_dt codigo))
               tareas)"

text \<open>
  The identifiers the listings of a list of cells yield (a cell whose task raises yields
  none), and how often a value occurs in a list of identifiers up to Python equality of
  hashable values.
\<close>

definition hallados :: "servidor \<Rightarrow> args \<Rightarrow> string \<Rightarrow> (date \<times> string) list \<Rightarrow> json list" where
  "hallados srv a ticket celdas =
     concat (map (\<lambda>combo. nuevos_de (procesar_listado srv a ticket combo)) celdas)"

definition veces :: "json \<Rightarrow> json list \<Rightarrow> nat" where
  "veces c codigos = length (filter (\<lambda>x. py_hash x = py_hash c) codigos)"

section \<open>Example inputs\<close>

text \<open>
  A library that knows four dates (14 to 17 January 2024, ordinals 738899 to 738902), the
  record of an order with a code and a creation date, and the row it projects to.
\<close>

definition L_ej :: biblioteca where
  "L_ej = \<lparr> date_parse = (\<lambda>s. if s = ''2024-01-14'' then Some 738899
                              else if s = ''2024-01-15'' then Some 738900
                              else if s = ''2024-01-16'' then Some 738901
                              else if s = ''2024-01-17'' then Some 738902
                              else None),
            date_strftime = (\<lambda>d. if d = 738899 then ''14-01-2024''
                              else if d = 738900 then ''15-01-2024''
                              else if d = 738901 then ''16-01-2024''
                              else if d = 738902 then ''17-01-2024''
                              else ''otra''),
            str_of = (\<lambda>v. ''?'') \<rparr>"

definition oc_ej :: "string \<Rightarrow> string \<Rightarrow> json" where
  "oc_ej codigo fecha =
     JDict [(''Codigo'', JStr codigo), (''Fechas'', JDict [(''FechaCreacion'', JStr fecha)])]"

definition fila_ej :: "string \<Rightarrow> string \<Rightarrow> fila" where
  "fila_ej codigo fecha =
     zip COLUMNAS
       [JStr codigo, JStr [], JStr [], JStr [], JStr [], JStr [], JStr [], JStr fecha, JStr [],
        JStr [], JStr [], JStr [], JStr [], JStr [], JStr [], JStr [], JStr [], JStr [], JStr [],
        JStr [], JStr []]"

text \<open>
  A server: the two days 15 and 16 January list \<open>A\<close> twice (once under each day), \<open>B\<close>
  under the lower-case field name, \<open>C\<close> and \<open>D\<close>; every other listing request is
  answered 404. The orders \<open>A\<close>, \<open>C\<close>, \<open>D\<close> were created on the first and the last
  day of the window 15 to 16 January, \<open>B\<close> the day before it. A request for any other
  identifier is answered 503.
\<close>

definition http_ok :: "json \<Rightarrow> intento" where
  "http_ok payload = Respuesta \<lparr>status_code = 200, cuerpo = Some payload\<rparr>"

definition http_status :: "int \<Rightarrow> intento" where
  "http_status n = Respuesta \<lparr>status_code = n, cuerpo = None\<rparr>"

definition srv_ej :: servidor where
  "srv_ej p k =
     (case p of
        ListarParams dia org t \<Rightarrow>
          if dia = 738900 then
            http_ok (JDict [(''Listado'', JList [JDict [(''Codigo'', JStr ''A'')],
                                                 JDict [(''codigo'', JStr ''B'')]])])
          else if dia = 738901 then
            http_ok (JDict [(''Listado'', JList [JDict [(''Codigo'', JStr ''A'')],
                                                 JDict [(''Codigo'', JStr ''C'')],
                                                 JDict [(''Codigo'', JStr ''D'')]])])
          else http_status 404
      | DetalleParams c t \<Rightarrow>
          if c = JStr ''A'' then http_ok (JDict [(''Listado'', JList [oc_ej ''A'' ''2024-01-15''])])
          else if c = JStr ''B'' then http_ok (JDict [(''Listado'', JList [oc_ej ''B'' ''2024-01-14''])])
          else if c = JStr ''C'' then http_ok (JDict [(''Listado'', oc_ej ''C'' ''2024-01-16'')])
          else if c = JStr ''D'' then http_ok (JDict [(''Listado'', JList [oc_ej ''D'' ''2024-01-16''])])
          else http_status 503)"

text \<open>
  A record inside the window whose item list holds a string instead of an object, and the
  same server, except that it answers the detail request for \<open>C\<close> with that record.
\<close>

definition oc_roto :: json where
  "oc_roto = JDict [(''Codigo'', JStr ''C''),
                    (''Fechas'', JDict [(''FechaCreacion'', JStr ''2024-01-16'')]),
                    (''Items'', JDict [(''Listado'', JList [JStr ''x''])])]"

definition srv_roto :: servidor where
  "srv_roto p k =
     (case p of
        ListarParams dia org t \<Rightarrow> srv_ej p k
      | DetalleParams c t \<Rightarrow>
          if c = JStr ''C'' then http_ok (JDict [(''Listado'', JList [oc_roto])])
          else srv_ej p k)"

text \<open>
  A server whose listing holds the entry of \<open>A\<close> followed by a number in the place of
  an entry.
\<close>

definition srv_mixto :: servidor where
  "srv_mixto p k =
     (case p of
        ListarParams dia org t \<Rightarrow>
          http_ok (JDict [(''Listado'', JList [JDict [(''Codigo'', JStr ''A'')], JNum 5])])
      | DetalleParams c t \<Rightarrow> http_status 404)"

definition srv_503 :: servidor where
  "srv_503 p k = http_status 503"

definition a_sec :: args where
  "a_sec = \<lparr>workers = 1, retries = 5, batch_size = 2\<rparr>"

definition a_con :: args where
  "a_con = \<lparr>workers = 4, retries = 5, batch_size = 2\<rparr>"

text \<open>
  The sink after the rows of \<open>A\<close>, \<open>C\<close> and \<open>D\<close> went through it with batch size 2
  and the final flush.
\<close>

definition sumidero_ej :: sumidero where
  "sumidero_ej =
     \<lparr> escribir_header = False, filas_batch = [], escritos = 3,
       archivo = Some [Encabezado COLUMNAS,
                       Registro (fila_ej ''A'' ''15-01-2024''),
                       Registro (fila_ej ''C'' ''16-01-2024''),
                       Registro (fila_ej ''D'' ''16-01-2024'')],
       escrituras = [2, 1] \<rparr>"

text \<open>
  The state of the deduplication is in order: the identifiers collected so far are
  hashable and pairwise different as Python compares them, and \<^verbatim>\<open>vistos\<close> holds
  exactly their hash keys.
\<close>

definition limpio :: "json list \<times> hkey set \<Rightarrow> bool" where
  "limpio st \<longleftrightarrow>
     distinct (map py_hash (fst st)) \<and> Inr ` snd st = set (map py_hash (fst st))"

section \<open>The retry loop\<close>

lemma backoff_desplazado:
  "map (\<lambda>i. [Peticion p, Dormir (Backoff (w * 2 ^ i))]) [0..<Suc m] =
   [Peticion p, Dormir (Backoff w)]
     # map (\<lambda>i. [Peticion p, Dormir (Backoff (w * 2 * 2 ^ i))]) [0..<m]"
  by (simp add: upt_rec[of 0 "Suc m"] map_Suc_upt[symmetric] del: upt_Suc)

text \<open>
  When every attempt from \<open>attempt\<close> on fails in a retryable way, the loop issues one
  request and one back-off sleep per remaining attempt and gives up.
\<close>

lemma rwr_bucle_agotado:
  "(\<forall>k. attempt \<le> k \<and> int k < n \<longrightarrow> reintentable (srv p k)) \<Longrightarrow>
   rwr_bucle srv p n attempt w =
     (None, concat (map (\<lambda>i. [Peticion p, Dormir (Backoff (w * 2 ^ i))])
                      [0..<nat (n - int attempt)]))"
proof (induction srv p n attempt w rule: rwr_bucle.induct)
  case (1 srv params retries attempt wait)
  show ?case
  proof (cases "int attempt < retries")
    case False
    then show ?thesis by (simp add: rwr_bucle.simps[of srv params retries attempt wait])
  next
    case True
    then have re: "reintentable (srv params attempt)" using "1.prems" by simp
    have rest: "\<forall>k. attempt + 1 \<le> k \<and> int k < retries \<longrightarrow> reintentable (srv params k)"
      using "1.prems" by simp
    have len: "nat (retries - int attempt) = Suc (nat (retries - int (attempt + 1)))"
      using True by simp
    show ?thesis
    proof (cases "srv params attempt")
      case RequestException
      from "1.IH"(2)[OF True RequestException rest]
      show ?thesis
        using True RequestException
        by (subst rwr_bucle.simps) (simp add: len backoff_desplazado del: upt_Suc)
    next
      case (Respuesta r)
      with re have st: "status_code r \<noteq> 200"
        "status_code r = 429 \<or> (500 \<le> status_code r \<and> status_code r < 600)"
        by auto
      from "1.IH"(1)[OF True Respuesta st(1) st(2) rest]
      show ?thesis
        using True Respuesta st
        by (subst rwr_bucle.simps) (simp add: len backoff_desplazado del: upt_Suc)
    qed
  qed
qed

lemma peticiones_backoff:
  "peticiones (concat (map (\<lambda>i. [Peticion p, Dormir (f i)]) xs)) = length xs"
  by (induction xs) (simp_all add: peticiones_def)

text \<open>Whatever the server answers, the loop never issues more requests than attempts remain.\<close>

lemma rwr_bucle_cota:
  "peticiones (snd (rwr_bucle srv p n attempt w)) \<le> nat (n - int attempt)"
proof (induction srv p n attempt w rule: rwr_bucle.induct)
  case (1 srv params retries attempt wait)
  show ?case
  proof (cases "int attempt < retries")
    case False
    then show ?thesis
      by (simp add: rwr_bucle.simps[of srv params retries attempt wait] peticiones_def)
  next
    case True
    have len: "nat (retries - int attempt) = Suc (nat (retries - int (attempt + 1)))"
      using True by simp
    show ?thesis
    proof (cases "srv params attempt")
      case RequestException
      from "1.IH"(2)[OF True RequestException]
      show ?thesis
        using True RequestException
        by (subst rwr_bucle.simps) (auto simp add: len peticiones_def split: prod.splits)
    next
      case (Respuesta r)
      show ?thesis
      proof (cases "status_code r \<noteq> 200
                    \<and> (status_code r = 429 \<or> (500 \<le> status_code r \<and> status_code r < 600))")
        case otra: True
        from "1.IH"(1)[OF True Respuesta] otra
        show ?thesis
          using True Respuesta
          by (subst rwr_bucle.simps) (auto simp add: len peticiones_def split: prod.splits)
      next
        case False
        then show ?thesis
          using True Respuesta
          by (subst rwr_bucle.simps) (auto simp add: len peticiones_def)
      qed
    qed
  qed
qed

text \<open>
  Claim C4. For every value of \<open>retries\<close> (here \<open>n\<close>) and every request all of whose
  attempts fail in a retryable way (HTTP 429, 5xx or a transport exception),
  \<open>request_with_retries\<close> returns \<open>None\<close> after exactly \<open>n\<close> requests (none when
  \<open>n\<close> is not positive), each followed by its back-off sleep of 1, 2, 4, ... seconds. The
  function is total (its termination is proved with its definition), so the loop ends for
  every server.
\<close>

theorem request_with_retries_agotado:
  assumes "\<forall>k. int k < n \<longrightarrow> reintentable (srv p k)"
  shows "fst (request_with_retries srv p n) = None
       \<and> snd (request_with_retries srv p n) =
           concat (map (\<lambda>i. [Peticion p, Dormir (Backoff (2 ^ i))]) [0..<nat n])
       \<and> int (peticiones (snd (request_with_retries srv p n))) = max 0 n"
  unfolding request_with_retries_def
  using rwr_bucle_agotado[of 0 n srv p 1] assms by (simp add: peticiones_backoff)

theorem request_with_retries_agotado_witness:
  "fst (request_with_retries srv_503 (DetalleParams (JStr ''A'') ''t'') 3) = None
   \<and> snd (request_with_retries srv_503 (DetalleParams (JStr ''A'') ''t'') 3) =
       [Peticion (DetalleParams (JStr ''A'') ''t''), Dormir (Backoff 1),
        Peticion (DetalleParams (JStr ''A'') ''t''), Dormir (Backoff 2),
        Peticion (DetalleParams (JStr ''A'') ''t''), Dormir (Backoff 4)]
   \<and> peticiones (snd (request_with_retries srv_503 (DetalleParams (JStr ''A'') ''t'') 3)) = 3"
proof -
  have h: "\<forall>k. int k < 3 \<longrightarrow> reintentable (srv_503 (DetalleParams (JStr ''A'') ''t'') k)"
    by (simp add: srv_503_def http_status_def)
  have u: "[0..<3] = [0, Suc 0, 2]" by code_simp
  show ?thesis
    using request_with_retries_agotado[of 3 srv_503 "DetalleParams (JStr ''A'') ''t''"] h
    by (simp add: u peticiones_def)
qed

text \<open>
  Claim C10. For every \<open>retries\<close> (here \<open>n\<close>) that is zero or negative,
  \<open>request_with_retries\<close> issues no request, sleeps never and returns \<open>None\<close>; and for
  every \<open>n\<close> and every server the number of requests is at most \<open>n\<close>: the parameter
  bounds the attempts in total, the first one included.
\<close>

theorem request_with_retries_sin_intentos:
  "(n \<le> 0 \<longrightarrow> request_with_retries srv p n = (None, []))
   \<and> int (peticiones (snd (request_with_retries srv p n))) \<le> max 0 n"
proof (cases "n \<le> 0")
  case True
  then have "rwr_bucle srv p n 0 1 = (None, [])"
    by (subst rwr_bucle.simps) simp
  with True show ?thesis
    by (simp add: request_with_retries_def peticiones_def)
next
  case False
  then show ?thesis
    using rwr_bucle_cota[of srv p n 0 1] by (simp add: request_with_retries_def)
qed

theorem request_with_retries_sin_intentos_witness:
  "request_with_retries srv_ej (DetalleParams (JStr ''A'') ''t'') 0 = (None, [])
   \<and> request_with_retries srv_ej (DetalleParams (JStr ''A'') ''t'') (- 2) = (None, [])
   \<and> peticiones (snd (request_with_retries srv_503 (DetalleParams (JStr ''A'') ''t'') 1)) \<le> 1"
  using request_with_retries_sin_intentos[of 0 srv_ej "DetalleParams (JStr ''A'') ''t''"]
        request_with_retries_sin_intentos[of "- 2" srv_ej "DetalleParams (JStr ''A'') ''t''"]
        request_with_retries_sin_intentos[of 1 srv_503 "DetalleParams (JStr ''A'') ''t''"]
  by simp

section \<open>Row projection\<close>

lemma setdefault_presente: "k \<in> fst ` set f \<Longrightarrow> setdefault f k v = f"
  by (auto simp: setdefault_def map_of_eq_None_iff split: option.splits)

lemma foldl_setdefault_presentes:
  "set ks \<subseteq> fst ` set f \<Longrightarrow> foldl (\<lambda>g columna. setdefault g columna v) f ks = f"
  by (induction ks) (simp_all add: setdefault_presente)

lemma foldl_setdefault_zip:
  "length vs = length ks \<Longrightarrow>
   foldl (\<lambda>g columna. setdefault g columna v) (zip ks vs) ks = zip ks vs"
  by (rule foldl_setdefault_presentes) (simp add: map_fst_zip flip: set_map)

lemma COLUMNAS_21: "length COLUMNAS = 21"
  by (simp add: COLUMNAS_def)

lemma COLUMNAS_distintas: "distinct COLUMNAS"
  by (simp add: COLUMNAS_def o_acute_def i_acute_def)

lemma fila_literal:
  "[(''C'' @ o_acute @ ''digo OC'', v1),
    (''Nombre'', v2),
    (''C'' @ o_acute @ ''digo Estado'', v3),
    (''Descripci'' @ o_acute @ ''n'', v4),
    (''C'' @ o_acute @ ''digo Licitaci'' @ o_acute @ ''n'', v5),
    (''Tipo'', v6),
    (''Moneda'', v7),
    (''Fecha Creaci'' @ o_acute @ ''n'', v8),
    (''Fecha Env'' @ i_acute @ ''o'', v9),
    (''Fecha Aceptaci'' @ o_acute @ ''n'', v10),
    (''Total'', v11),
    (''Total Neto'', v12),
    (''Proveedor'', v13),
    (''Rut Proveedor'', v14),
    (''Unidad Compradora'', v15),
    (''Nombre Organismo'', v16),
    (''Contacto Comprador'', v17),
    (''Fuente Financiamiento'', v18),
    (''Codigo categoria'', v19),
    (''Categor'' @ i_acute @ ''a'', v20),
    (''Codigo producto'', v21)]
   = zip COLUMNAS [v1, v2, v3, v4, v5, v6, v7, v8, v9, v10, v11, v12, v13, v14, v15, v16,
                   v17, v18, v19, v20, v21]"
  by (simp add: COLUMNAS_def)

lemma construir_fila_oc_claves:
  assumes "construir_fila_oc L oc = Inr f"
  shows "map fst f = COLUMNAS"
proof (cases oc)
  case (JDict d)
  show ?thesis
    using assms
    unfolding JDict construir_fila_oc.simps fila_literal Let_def ebind_def
    by (auto simp: foldl_setdefault_zip COLUMNAS_21 split: sum.splits)
qed (use assms in \<open>simp_all add: construir_fila_oc.simps\<close>)

lemma construir_fila_oc_no_vacia: "construir_fila_oc L oc = Inr f \<Longrightarrow> f \<noteq> []"
proof -
  assume "construir_fila_oc L oc = Inr f"
  then have "length (map fst f) = 21"
    using construir_fila_oc_claves[of L oc f] COLUMNAS_21 by simp
  then show ?thesis by auto
qed

lemmas evaluar_fila =
  Let_def ebind_def py_or_def dict_get_def py_get_def obtener_moneda_def
  obtener_fuente_financiamiento_def obtener_rut_proveedor_def campo_item_def
  formatear_fecha_salida_def parse_fecha_json_def CAMPOS_TEXTO_def CAMPOS_MONEDA_def py_str_def

lemma construir_fila_oc_vacio:
  "construir_fila_oc L (JDict []) = Inr (map (\<lambda>c. (c, JStr [])) COLUMNAS)"
  unfolding construir_fila_oc.simps fila_literal
  by (simp add: evaluar_fila foldl_setdefault_zip COLUMNAS_21) (simp add: COLUMNAS_def)

lemma construir_fila_oc_ej:
  "construir_fila_oc L (oc_ej c fecha) = Inr (fila_ej c (formatear_fecha_salida L (JStr fecha)))"
  unfolding oc_ej_def construir_fila_oc.simps fila_literal fila_ej_def
  by (simp add: evaluar_fila foldl_setdefault_zip COLUMNAS_21)

text \<open>
  Claim C5. For every detail record, the row that \<open>construir_fila_oc\<close> returns has
  exactly the 21 field names of \<open>COLUMNAS\<close>, each once and in the order of the schema;
  the record without any field is projected to the row whose 21 fields are all the empty
  string.
\<close>
theorem construir_fila_oc_esquema:
  "(construir_fila_oc L oc = Inr f \<longrightarrow>
      map fst f = COLUMNAS \<and> length f = 21 \<and> distinct (map fst f))
   \<and> construir_fila_oc L (JDict []) = Inr (map (\<lambda>c. (c, JStr [])) COLUMNAS)"
proof -
  have "map fst f = COLUMNAS \<and> length f = 21 \<and> distinct (map fst f)"
    if "construir_fila_oc L oc = Inr f"
    using construir_fila_oc_claves[OF that] COLUMNAS_21 COLUMNAS_distintas
    by (metis length_map)
  with construir_fila_oc_vacio[of L] show ?thesis by blast
qed

theorem construir_fila_oc_esquema_witness:
  "construir_fila_oc L_ej (oc_ej ''A'' ''2024-01-15'') = Inr (fila_ej ''A'' ''15-01-2024'')
   \<and> map fst (fila_ej ''A'' ''15-01-2024'') = COLUMNAS
   \<and> length (fila_ej ''A'' ''15-01-2024'') = 21
   \<and> distinct (map fst (fila_ej ''A'' ''15-01-2024''))"
proof -
  have e: "construir_fila_oc L_ej (oc_ej ''A'' ''2024-01-15'') = Inr (fila_ej ''A'' ''15-01-2024'')"
    by (simp add: construir_fila_oc_ej formatear_fecha_salida_def parse_fecha_json_def L_ej_def)
  show ?thesis
    using construir_fila_oc_esquema[of L_ej "oc_ej ''A'' ''2024-01-15''" "fila_ej ''A'' ''15-01-2024''"] e
    by blast
qed

text \<open>
  Claim C8 says that the projection never raises, whatever the shape of the record. The
  helpers \<open>safe_get\<close>, \<open>normalizar_texto\<close>, \<open>normalizar_moneda\<close> and
  \<open>formatear_fecha_salida\<close> are total, but \<open>construir_fila_oc\<close> itself raises on a
  record whose first item is a string, whose item list is a number, or whose date block is
  a string: it calls \<^verbatim>\<open>.get\<close> and \<^verbatim>\<open>[0]\<close> without the type test that
  \<open>safe_get\<close> makes.
\<close>
theorem construir_fila_oc_lanza:
  "construir_fila_oc L (JDict [(''Items'', JDict [(''Listado'', JList [JStr ''x''])])]) = Inl AttributeError
   \<and> construir_fila_oc L (JDict [(''Items'', JNum 5)]) = Inl TypeError
   \<and> construir_fila_oc L (JDict [(''Fechas'', JStr ''2024-01-15'')]) = Inl AttributeError"
  by (simp add: construir_fila_oc.simps evaluar_fila CAMPOS_MONEDA_def)

section \<open>The validity window\<close>

lemma fecha_oc_ej:
  "parse_fecha_json L (safe_get (oc_ej c fecha) [''Fechas'', ''FechaCreacion''])
     = parse_fecha_json L (JStr fecha)"
  by (simp add: oc_ej_def)

lemma fechas_L_ej:
  "parse_fecha_json L_ej (JStr ''2024-01-14'') = Some 738899"
  "parse_fecha_json L_ej (JStr ''2024-01-15'') = Some 738900"
  "parse_fecha_json L_ej (JStr ''2024-01-16'') = Some 738901"
  "parse_fecha_json L_ej (JStr ''2024-01-17'') = Some 738902"
  "parse_fecha_json L_ej (JStr ''ayer'') = None"
  "formatear_fecha_salida L_ej (JStr ''2024-01-15'') = ''15-01-2024''"
  "formatear_fecha_salida L_ej (JStr ''2024-01-16'') = ''16-01-2024''"
  by (simp_all add: formatear_fecha_salida_def parse_fecha_json_def L_ej_def)

lemma fechas_oc_ej:
  "parse_fecha_json L_ej (safe_get (oc_ej c ''2024-01-14'') [''Fechas'', ''FechaCreacion'']) = Some 738899"
  "parse_fecha_json L_ej (safe_get (oc_ej c ''2024-01-15'') [''Fechas'', ''FechaCreacion'']) = Some 738900"
  "parse_fecha_json L_ej (safe_get (oc_ej c ''2024-01-16'') [''Fechas'', ''FechaCreacion'']) = Some 738901"
  "parse_fecha_json L_ej (safe_get (oc_ej c ''2024-01-17'') [''Fechas'', ''FechaCreacion'']) = Some 738902"
  "parse_fecha_json L_ej (safe_get (oc_ej c ''ayer'') [''Fechas'', ''FechaCreacion'']) = None"
  by (simp_all only: fecha_oc_ej fechas_L_ej)

lemma filas_L_ej:
  "construir_fila_oc L_ej (oc_ej c ''2024-01-15'') = Inr (fila_ej c ''15-01-2024'')"
  "construir_fila_oc L_ej (oc_ej c ''2024-01-16'') = Inr (fila_ej c ''16-01-2024'')"
  by (simp_all only: construir_fila_oc_ej fechas_L_ej)

text \<open>
  The validity filter on its own. For every detail record: when its creation date is missing
  or unparsable, or lies strictly before \<open>desde_dt\<close> or strictly after
  \<open>hasta_dt\<close>, no row is produced; when it lies in the window, both ends included,
  the record is handed to the projection, and the outcome of the projection is the outcome
  for the record.
\<close>

lemma ventana_filtro:
  "(parse_fecha_json L (safe_get oc [''Fechas'', ''FechaCreacion'']) = None
      \<longrightarrow> validar_y_construir L desde_dt hasta_dt oc = Inr None)
   \<and> (parse_fecha_json L (safe_get oc [''Fechas'', ''FechaCreacion'']) = Some d
        \<and> (d < desde_dt \<or> hasta_dt < d)
      \<longrightarrow> validar_y_construir L desde_dt hasta_dt oc = Inr None)
   \<and> (parse_fecha_json L (safe_get oc [''Fechas'', ''FechaCreacion'']) = Some d
        \<and> desde_dt \<le> d \<and> d \<le> hasta_dt
      \<longrightarrow> validar_y_construir L desde_dt hasta_dt oc =
            ebind (construir_fila_oc L oc) (\<lambda>f. Inr (Some f)))"
  by (auto simp: validar_y_construir_def ebind_def)

section \<open>The batch sink: invariants\<close>

lemma filas_de_registros: "concat (map (filas_de_linea \<circ> Registro) fs) = fs"
  by (induction fs) simp_all

lemma volcado_inicial: "volcado [] (sumidero_inicial previo)"
  by (simp add: volcado_def sumidero_inicial_def split: option.splits)

lemma por_lotes_inicial: "1 \<le> batch_size a \<Longrightarrow> por_lotes a [] (sumidero_inicial previo)"
  by (simp add: por_lotes_def sumidero_inicial_def)

lemma volcado_archivo: "volcado ws s \<Longrightarrow> filas_de_archivo (archivo s) = ws"
  by (simp add: volcado_def filas_de_archivo_def filas_de_registros)

lemma flush_volcado: "volcado ws s \<Longrightarrow> volcado (ws @ filas_batch s) (flush s)"
  by (auto simp: volcado_def flush_def)

lemma flush_batch: "filas_batch (flush s) = []"
  by (simp add: flush_def)

lemma flush_escrituras:
  "escrituras (flush s) =
     escrituras s @ (if filas_batch s = [] then [] else [length (filas_batch s)])"
  by (simp add: flush_def)

lemma volcado_batch: "volcado ws s \<Longrightarrow> volcado ws (s\<lparr>filas_batch := b\<rparr>)"
  by (simp add: volcado_def)

lemma aceptar_volcado:
  assumes "volcado ws s"
  shows "\<exists>ws'. volcado ws' (aceptar a f s)
           \<and> ws' @ filas_batch (aceptar a f s) = ws @ filas_batch s @ [f]"
proof (cases "batch_size a \<le> int (length (filas_batch s @ [f]))")
  case True
  then have "aceptar a f s = flush (s\<lparr>filas_batch := filas_batch s @ [f]\<rparr>)"
    by (simp add: aceptar_def Let_def)
  with flush_volcado[OF volcado_batch[OF assms, of "filas_batch s @ [f]"]]
  show ?thesis by (auto simp: flush_batch)
next
  case False
  then have "aceptar a f s = s\<lparr>filas_batch := filas_batch s @ [f]\<rparr>"
    by (simp add: aceptar_def Let_def)
  with volcado_batch[OF assms, of "filas_batch s @ [f]"]
  show ?thesis by auto
qed

lemma div_mas_lote: "0 < (B::nat) \<Longrightarrow> (n + B) div B = Suc (n div B)"
  using div_add_self2[of B n] by simp

lemma aceptar_por_lotes:
  assumes B: "1 \<le> batch_size a" and v: "volcado ws s" and l: "por_lotes a ws s"
  shows "\<exists>ws'. volcado ws' (aceptar a f s) \<and> por_lotes a ws' (aceptar a f s)
           \<and> ws' @ filas_batch (aceptar a f s) = ws @ filas_batch s @ [f]"
proof (cases "batch_size a \<le> int (length (filas_batch s @ [f]))")
  case False
  then have ac: "aceptar a f s = s\<lparr>filas_batch := filas_batch s @ [f]\<rparr>"
    by (simp add: aceptar_def Let_def)
  have "por_lotes a ws (aceptar a f s)" using l False by (simp add: ac por_lotes_def)
  with volcado_batch[OF v, of "filas_batch s @ [f]"] show ?thesis
    unfolding ac by auto
next
  case True
  let ?s' = "s\<lparr>filas_batch := filas_batch s @ [f]\<rparr>"
  let ?B = "nat (batch_size a)"
  have ac: "aceptar a f s = flush ?s'" using True by (simp add: aceptar_def Let_def)
  have len: "length (filas_batch s @ [f]) = ?B"
    using True l by (simp add: por_lotes_def) linarith
  have B0: "0 < ?B" using B by simp
  from l have m: "length ws mod ?B = 0" by (simp add: por_lotes_def)
  have d: "(length ws + ?B) div ?B = Suc (length ws div ?B)"
    by (rule div_mas_lote[OF B0])
  have "por_lotes a (ws @ filas_batch s @ [f]) (flush ?s')"
    using l B len B0 m d
    by (simp add: por_lotes_def flush_batch flush_escrituras replicate_append_same
        del: length_append)
       (simp add: )
  moreover have "volcado (ws @ filas_batch s @ [f]) (flush ?s')"
    using flush_volcado[OF volcado_batch[OF v, of "filas_batch s @ [f]"]] by simp
  ultimately show ?thesis unfolding ac by (auto simp: flush_batch)
qed

lemma foldl_aceptar_volcado:
  assumes "volcado ws s"
  shows "\<exists>ws'. volcado ws' (foldl (\<lambda>t f. aceptar a f t) s fs)
           \<and> ws' @ filas_batch (foldl (\<lambda>t f. aceptar a f t) s fs) = ws @ filas_batch s @ fs"
  using assms
proof (induction fs arbitrary: ws s)
  case Nil
  then show ?case by auto
next
  case (Cons f fs)
  from aceptar_volcado[OF Cons.prems, of a f] obtain ws1 where
    v: "volcado ws1 (aceptar a f s)"
    and e: "ws1 @ filas_batch (aceptar a f s) = ws @ filas_batch s @ [f]" by blast
  from Cons.IH[OF v] obtain ws2 where
    v2: "volcado ws2 (foldl (\<lambda>t f. aceptar a f t) (aceptar a f s) fs)"
    and e2: "ws2 @ filas_batch (foldl (\<lambda>t f. aceptar a f t) (aceptar a f s) fs)
             = ws1 @ filas_batch (aceptar a f s) @ fs" by blast
  have "ws1 @ filas_batch (aceptar a f s) @ fs = ws @ filas_batch s @ f # fs"
    using arg_cong[OF e, of "\<lambda>x. x @ fs"] by simp
  with v2 e2 show ?case by auto
qed

lemma foldl_aceptar_por_lotes:
  assumes "1 \<le> batch_size a" "volcado ws s" "por_lotes a ws s"
  shows "\<exists>ws'. volcado ws' (foldl (\<lambda>t f. aceptar a f t) s fs)
           \<and> por_lotes a ws' (foldl (\<lambda>t f. aceptar a f t) s fs)
           \<and> ws' @ filas_batch (foldl (\<lambda>t f. aceptar a f t) s fs) = ws @ filas_batch s @ fs"
  using assms(2,3)
proof (induction fs arbitrary: ws s)
  case Nil
  then show ?case by auto
next
  case (Cons f fs)
  from aceptar_por_lotes[OF assms(1) Cons.prems, of f] obtain ws1 where
    v: "volcado ws1 (aceptar a f s)" and l: "por_lotes a ws1 (aceptar a f s)"
    and e: "ws1 @ filas_batch (aceptar a f s) = ws @ filas_batch s @ [f]" by blast
  from Cons.IH[OF v l] obtain ws2 where
    v2: "volcado ws2 (foldl (\<lambda>t f. aceptar a f t) (aceptar a f s) fs)"
    and l2: "por_lotes a ws2 (foldl (\<lambda>t f. aceptar a f t) (aceptar a f s) fs)"
    and e2: "ws2 @ filas_batch (foldl (\<lambda>t f. aceptar a f t) (aceptar a f s) fs)
             = ws1 @ filas_batch (aceptar a f s) @ fs" by blast
  have "ws1 @ filas_batch (aceptar a f s) @ fs = ws @ filas_batch s @ f # fs"
    using arg_cong[OF e, of "\<lambda>x. x @ fs"] by simp
  with v2 l2 e2 show ?case by auto
qed

section \<open>The fetch loops feed the sink\<close>

lemma procesar_respuesta_fila:
  assumes "procesar_respuesta L d h resp = Inr (Some f)"
  shows "f \<noteq> []"
proof -
  from assms obtain oc where "construir_fila_oc L oc = Inr f"
    by (auto simp: procesar_respuesta_def validar_y_construir_def ebind_def
        split: sum.splits option.splits if_splits)
  then show ?thesis by (rule construir_fila_oc_no_vacia)
qed

lemma descargar_secuencial_sumidero:
  "descargar_secuencial L srv a ticket d h codigos s tr = (None, s', tr') \<Longrightarrow>
   s' = foldl (\<lambda>t f. aceptar a f t) s (filas_aceptadas L srv a ticket d h codigos)"
proof (induction codigos arbitrary: s tr)
  case Nil
  then show ?case by (simp add: filas_aceptadas_def)
next
  case (Cons codigo resto)
  obtain resp evs where r: "request_with_retries srv (DetalleParams codigo ticket) (retries a) = (resp, evs)"
    by (cases "request_with_retries srv (DetalleParams codigo ticket) (retries a)")
  then have rd: "resultado_detalle L srv a ticket d h codigo = procesar_respuesta L d h resp"
    by (simp add: resultado_detalle_def)
  have fa: "filas_aceptadas L srv a ticket d h (codigo # resto)
            = fila_aceptada (procesar_respuesta L d h resp) @ filas_aceptadas L srv a ticket d h resto"
    by (simp add: filas_aceptadas_def rd)
  show ?case
  proof (cases "procesar_respuesta L d h resp")
    case (Inl e)
    with Cons.prems r show ?thesis by simp
  next
    case (Inr fo)
    show ?thesis
    proof (cases fo)
      case None
      with Cons.prems r Inr have
        "descargar_secuencial L srv a ticket d h resto s (tr @ evs) = (None, s', tr')" by simp
      from Cons.IH[OF this] show ?thesis by (simp add: fa Inr None)
    next
      case (Some f)
      with Cons.prems r Inr have
        "descargar_secuencial L srv a ticket d h resto (aceptar a f s)
           (tr @ evs @ [Dormir PausaDetalle]) = (None, s', tr')" by simp
      from Cons.IH[OF this] show ?thesis by (simp add: fa Inr Some)
    qed
  qed
qed

lemma recibir_fila_de:
  "recibir a s (fila_de (procesar_detalle L srv a ticket d h codigo))
   = foldl (\<lambda>t f. aceptar a f t) s (fila_aceptada (resultado_detalle L srv a ticket d h codigo))"
proof -
  obtain resp evs where r: "request_with_retries srv (DetalleParams codigo ticket) (retries a) = (resp, evs)"
    by (cases "request_with_retries srv (DetalleParams codigo ticket) (retries a)")
  show ?thesis
  proof (cases "procesar_respuesta L d h resp")
    case (Inl e)
    then show ?thesis
      by (simp add: procesar_detalle_def resultado_detalle_def r fila_de_def recibir_def)
  next
    case (Inr fo)
    then show ?thesis
      using procesar_respuesta_fila[of L d h resp]
      by (cases fo)
         (simp_all add: procesar_detalle_def resultado_detalle_def r fila_de_def recibir_def)
  qed
qed

lemma descargar_concurrente_sumidero:
  "fst (descargar_concurrente L srv a ticket d h tareas s)
   = foldl (\<lambda>t f. aceptar a f t) s (filas_aceptadas L srv a ticket d h tareas)"
proof (induction tareas arbitrary: s)
  case Nil
  then show ?case by (simp add: descargar_concurrente_def filas_aceptadas_def)
next
  case (Cons codigo resto)
  from Cons.IH[of "recibir a s (fila_de (procesar_detalle L srv a ticket d h codigo))"]
  show ?case
    by (simp add: descargar_concurrente_def filas_aceptadas_def Let_def recibir_fila_de)
qed

text \<open>
  A fetch phase that returns has fed the accepted rows to the sink, in order, and flushed.
\<close>
lemma descargar_bucle:
  assumes "descargar_detalle_y_escribir L srv a ticket codigos d h orden previo = (None, s, tr)"
  shows "s = flush (foldl (\<lambda>t f. aceptar a f t) (sumidero_inicial previo)
                 (filas_aceptadas L srv a ticket d h (if workers a \<le> 1 then codigos else orden codigos)))"
proof (cases "workers a \<le> 1")
  case True
  obtain e s1 tr1 where r: "descargar_secuencial L srv a ticket d h codigos (sumidero_inicial previo) [] = (e, s1, tr1)"
    by (cases "descargar_secuencial L srv a ticket d h codigos (sumidero_inicial previo) []")
  with assms True have "e = None" "s = flush s1"
    by (auto simp: descargar_detalle_y_escribir_def split: option.splits)
  with descargar_secuencial_sumidero[of L srv a ticket d h codigos "sumidero_inicial previo" "[]" s1 tr1] r True
  show ?thesis by simp
next
  case False
  obtain s1 tr1 where r: "descargar_concurrente L srv a ticket d h (orden codigos) (sumidero_inicial previo) = (s1, tr1)"
    by (cases "descargar_concurrente L srv a ticket d h (orden codigos) (sumidero_inicial previo)")
  with assms False have "s = flush s1"
    by (auto simp: descargar_detalle_y_escribir_def)
  moreover have "s1 = fst (descargar_concurrente L srv a ticket d h (orden codigos) (sumidero_inicial previo))"
    using r by simp
  ultimately show ?thesis using False by (simp add: descargar_concurrente_sumidero)
qed

section \<open>Batch flush completeness\<close>

lemma techo_division:
  assumes "0 < (B::nat)"
  shows "(M + B - 1) div B = M div B + (if M mod B = 0 then 0 else 1)"
proof (cases "M mod B = 0")
  case True
  define q where "q = M div B"
  have q: "M = q * B" using True div_mult_mod_eq[of M B] by (simp add: q_def)
  have "(q * B + B - 1) div B = q"
    using assms by (intro div_nat_eqI) (simp_all add: algebra_simps)
  with q True show ?thesis by (simp add: q_def)
next
  case False
  define q r where "q = M div B" and "r = M mod B"
  have M: "M = q * B + r" and r: "0 < r" "r < B"
    using False assms div_mult_mod_eq[of M B] by (simp_all add: q_def r_def)
  have "(q * B + r + B - 1) div B = q + 1"
    using r by (intro div_nat_eqI) (simp_all add: algebra_simps)
  with M False show ?thesis by (simp add: q_def r_def)
qed


lemma lote_parcial:
  assumes "0 < (B::nat)" "n mod B = 0" "b < B"
  shows "(n + b) mod B = b" and "(n + b) div B = n div B"
proof -
  define k where "k = n div B"
  have n: "n = k * B" using assms(2) div_mult_mod_eq[of n B] by (simp add: k_def)
  show "(n + b) mod B = b" using assms(3) by (simp add: n)
  show "(n + b) div B = n div B" using assms(1,3) by (simp add: n)
qed

text \<open>
  The sink in a fetch phase that returns, in either mode, with batch size \<open>B \<ge> 1\<close>
  and accepted rows \<open>fs\<close> (\<open>M\<close> of them): the data rows of the output file are
  exactly \<open>fs\<close>, the counter of written rows is \<open>M\<close>, the writes are \<open>M div B\<close>
  full batches followed, when \<open>M mod B > 0\<close>, by one batch of \<open>M mod B\<close> rows, which
  makes \<open>ceil(M/B)\<close> writes, and the last \<open>M mod B\<close> rows are the buffer that the
  final flush finds, shorter than \<open>B\<close>, and writes.
\<close>
lemma lotes_completos:
  assumes B1: "1 \<le> batch_size a"
    and run: "descargar_detalle_y_escribir L srv a ticket codigos desde_dt hasta_dt orden previo
              = (None, s, tr)"
    and fs: "fs = filas_aceptadas L srv a ticket desde_dt hasta_dt
                    (if workers a \<le> 1 then codigos else orden codigos)"
    and B: "B = nat (batch_size a)"
  shows "filas_de_archivo (archivo s) = fs
       \<and> escritos s = length fs
       \<and> escrituras s = replicate (length fs div B) B
                          @ (if length fs mod B = 0 then [] else [length fs mod B])
       \<and> length (escrituras s) = (length fs + B - 1) div B
       \<and> (\<exists>s'. s = flush s'
               \<and> filas_batch s' = drop (length fs - length fs mod B) fs
               \<and> length (filas_batch s') < B
               \<and> escrituras s' = replicate (length fs div B) B)"
proof -
  define s' where "s' = foldl (\<lambda>t f. aceptar a f t) (sumidero_inicial previo) fs"
  have s: "s = flush s'" using descargar_bucle[OF run] fs by (simp add: s'_def)
  have B0: "0 < B" using B1 B by simp
  have b0: "filas_batch (sumidero_inicial previo) = []" by (simp add: sumidero_inicial_def)
  from foldl_aceptar_por_lotes[OF B1 volcado_inicial[of previo] por_lotes_inicial[OF B1, of previo],
      where fs = fs]
  obtain ws where v: "volcado ws s'" and l: "por_lotes a ws s'"
    and e: "ws @ filas_batch s' = fs"
    unfolding s'_def b0 by auto
  from l have lb0: "int (length (filas_batch s')) < batch_size a"
    and w0: "escrituras s' = replicate (length ws div nat (batch_size a)) (nat (batch_size a))"
    and m0: "length ws mod nat (batch_size a) = 0"
    unfolding por_lotes_def by blast+
  have lb: "length (filas_batch s') < B" using lb0 B by linarith
  have w: "escrituras s' = replicate (length ws div B) B" using w0 B by simp
  have m: "length ws mod B = 0" using m0 B by simp
  have len: "length fs = length ws + length (filas_batch s')"
    using arg_cong[OF e, of length] by simp
  have md: "length fs mod B = length (filas_batch s')"
    unfolding len by (rule lote_parcial(1)[OF B0 m lb])
  have dv: "length fs div B = length ws div B"
    unfolding len by (rule lote_parcial(2)[OF B0 m lb])
  have "drop (length ws) fs = filas_batch s'" using e by auto
  moreover have "length fs - length fs mod B = length ws" using md len by simp
  ultimately have bt: "filas_batch s' = drop (length fs - length fs mod B) fs" by simp
  from flush_volcado[OF v] e have vf: "volcado fs (flush s')" by simp
  have c1: "filas_de_archivo (archivo s) = fs" using volcado_archivo[OF vf] s by simp
  have c2: "escritos s = length fs" using vf s by (simp add: volcado_def)
  have vacio: "(filas_batch s' = []) = (length fs mod B = 0)" unfolding md by simp
  have c3: "escrituras s = replicate (length fs div B) B
                          @ (if length fs mod B = 0 then [] else [length fs mod B])"
    unfolding s flush_escrituras w dv vacio md[symmetric] by simp
  have c4: "length (escrituras s) = (length fs + B - 1) div B"
    unfolding c3 techo_division[OF B0] by simp
  have c5: "\<exists>s'. s = flush s'
               \<and> filas_batch s' = drop (length fs - length fs mod B) fs
               \<and> length (filas_batch s') < B
               \<and> escrituras s' = replicate (length fs div B) B"
    using s bt lb w dv by metis
  from c1 c2 c3 c4 c5 show ?thesis by blast
qed

section \<open>Evaluation of the examples\<close>

text \<open>
  The example server and library, evaluated: what each request returns, what each response
  is turned into, and what the two phases do on them.
\<close>

lemma validar_ej:
  "validar_y_construir L_ej 738900 738901 (oc_ej c ''2024-01-15'') = Inr (Some (fila_ej c ''15-01-2024''))"
  "validar_y_construir L_ej 738900 738901 (oc_ej c ''2024-01-16'') = Inr (Some (fila_ej c ''16-01-2024''))"
  "validar_y_construir L_ej 738900 738901 (oc_ej c ''2024-01-14'') = Inr None"
  unfolding validar_y_construir_def fechas_oc_ej filas_L_ej by (simp_all add: ebind_def)

lemma oc_ej_forma: "oc_ej c f \<noteq> JNull" "truthy (oc_ej c f)"
  "(case oc_ej c f of JDict d \<Rightarrow> x d | _ \<Rightarrow> y) = x [(''Codigo'', JStr c), (''Fechas'', JDict [(''FechaCreacion'', JStr f)])]"
  by (simp_all add: oc_ej_def)

lemma procesar_ej:
  "procesar_respuesta L_ej 738900 738901
     (Some \<lparr>status_code = 200, cuerpo = Some (JDict [(''Listado'', JList [oc_ej c ''2024-01-15''])])\<rparr>)
   = Inr (Some (fila_ej c ''15-01-2024''))"
  "procesar_respuesta L_ej 738900 738901
     (Some \<lparr>status_code = 200, cuerpo = Some (JDict [(''Listado'', JList [oc_ej c ''2024-01-16''])])\<rparr>)
   = Inr (Some (fila_ej c ''16-01-2024''))"
  "procesar_respuesta L_ej 738900 738901
     (Some \<lparr>status_code = 200, cuerpo = Some (JDict [(''Listado'', JList [oc_ej c ''2024-01-14''])])\<rparr>)
   = Inr None"
  "procesar_respuesta L_ej 738900 738901
     (Some \<lparr>status_code = 200, cuerpo = Some (JDict [(''Listado'', oc_ej c ''2024-01-16'')])\<rparr>)
   = Inr (Some (fila_ej c ''16-01-2024''))"
  "procesar_respuesta L_ej 738900 738901 None = Inr None"
  by (simp_all add: procesar_respuesta_def primer_registro_def ebind_def py_get_def dict_get_def
      py_or_def Let_def validar_ej oc_ej_forma)

lemma pedir_detalle_ej:
  "request_with_retries srv_ej (DetalleParams (JStr ''A'') t) 5 =
     (Some \<lparr>status_code = 200, cuerpo = Some (JDict [(''Listado'', JList [oc_ej ''A'' ''2024-01-15''])])\<rparr>,
      [Peticion (DetalleParams (JStr ''A'') t)])"
  "request_with_retries srv_ej (DetalleParams (JStr ''B'') t) 5 =
     (Some \<lparr>status_code = 200, cuerpo = Some (JDict [(''Listado'', JList [oc_ej ''B'' ''2024-01-14''])])\<rparr>,
      [Peticion (DetalleParams (JStr ''B'') t)])"
  "request_with_retries srv_ej (DetalleParams (JStr ''C'') t) 5 =
     (Some \<lparr>status_code = 200, cuerpo = Some (JDict [(''Listado'', oc_ej ''C'' ''2024-01-16'')])\<rparr>,
      [Peticion (DetalleParams (JStr ''C'') t)])"
  "request_with_retries srv_ej (DetalleParams (JStr ''D'') t) 5 =
     (Some \<lparr>status_code = 200, cuerpo = Some (JDict [(''Listado'', JList [oc_ej ''D'' ''2024-01-16''])])\<rparr>,
      [Peticion (DetalleParams (JStr ''D'') t)])"
  unfolding request_with_retries_def
  by (subst rwr_bucle.simps, simp add: srv_ej_def http_ok_def)+

lemma resultado_ej:
  assumes "retries a = 5"
  shows "resultado_detalle L_ej srv_ej a t 738900 738901 (JStr ''A'') = Inr (Some (fila_ej ''A'' ''15-01-2024''))"
    and "resultado_detalle L_ej srv_ej a t 738900 738901 (JStr ''B'') = Inr None"
    and "resultado_detalle L_ej srv_ej a t 738900 738901 (JStr ''C'') = Inr (Some (fila_ej ''C'' ''16-01-2024''))"
    and "resultado_detalle L_ej srv_ej a t 738900 738901 (JStr ''D'') = Inr (Some (fila_ej ''D'' ''16-01-2024''))"
  by (simp_all add: resultado_detalle_def assms pedir_detalle_ej procesar_ej)

lemma aceptadas_ej:
  assumes "retries a = 5"
  shows "filas_aceptadas L_ej srv_ej a t 738900 738901 [JStr ''A'', JStr ''B'', JStr ''C'', JStr ''D'']
         = [fila_ej ''A'' ''15-01-2024'', fila_ej ''C'' ''16-01-2024'', fila_ej ''D'' ''16-01-2024'']"
  by (simp add: filas_aceptadas_def resultado_ej[OF assms])

lemma descargar_sec_ej:
  "descargar_detalle_y_escribir L_ej srv_ej a_sec ''t''
     [JStr ''A'', JStr ''B'', JStr ''C'', JStr ''D''] 738900 738901 orden previo
   = (None, sumidero_ej,
      [Peticion (DetalleParams (JStr ''A'') ''t''), Dormir PausaDetalle,
       Peticion (DetalleParams (JStr ''B'') ''t''),
       Peticion (DetalleParams (JStr ''C'') ''t''), Dormir PausaDetalle,
       Peticion (DetalleParams (JStr ''D'') ''t''), Dormir PausaDetalle])"
  by (simp add: descargar_detalle_y_escribir_def a_sec_def pedir_detalle_ej procesar_ej
      aceptar_def flush_def sumidero_inicial_def sumidero_ej_def Let_def split: option.splits)

lemma lotes_completos_ej:
  "descargar_detalle_y_escribir L_ej srv_ej a_sec ''t''
     [JStr ''A'', JStr ''B'', JStr ''C'', JStr ''D''] 738900 738901 id None
   = (None, sumidero_ej,
      [Peticion (DetalleParams (JStr ''A'') ''t''), Dormir PausaDetalle,
       Peticion (DetalleParams (JStr ''B'') ''t''),
       Peticion (DetalleParams (JStr ''C'') ''t''), Dormir PausaDetalle,
       Peticion (DetalleParams (JStr ''D'') ''t''), Dormir PausaDetalle])
   \<and> filas_de_archivo (archivo sumidero_ej)
       = [fila_ej ''A'' ''15-01-2024'', fila_ej ''C'' ''16-01-2024'', fila_ej ''D'' ''16-01-2024'']
   \<and> escritos sumidero_ej = 3
   \<and> escrituras sumidero_ej = [2, 1]
   \<and> length (escrituras sumidero_ej) = (3 + 2 - 1) div 2"
proof -
  have B1: "1 \<le> batch_size a_sec" by (simp add: a_sec_def)
  have r: "retries a_sec = 5" by (simp add: a_sec_def)
  have fs: "[fila_ej ''A'' ''15-01-2024'', fila_ej ''C'' ''16-01-2024'', fila_ej ''D'' ''16-01-2024'']
            = filas_aceptadas L_ej srv_ej a_sec ''t'' 738900 738901
                (if workers a_sec \<le> 1 then [JStr ''A'', JStr ''B'', JStr ''C'', JStr ''D'']
                 else id [JStr ''A'', JStr ''B'', JStr ''C'', JStr ''D''])"
  proof -
    have w: "workers a_sec \<le> 1" by (simp add: a_sec_def)
    show ?thesis unfolding if_P[OF w] aceptadas_ej[OF r] ..
  qed
  have B: "2 = nat (batch_size a_sec)" by (simp add: a_sec_def)
  have rep: "replicate (3 div 2) (2::nat) @ (if 3 mod 2 = (0::nat) then [] else [3 mod 2]) = [2, 1]"
    by code_simp
  from lotes_completos[OF B1 descargar_sec_ej[of id None] fs B] descargar_sec_ej[of id None]
  show ?thesis by (simp add: rep)
qed

lemma celdas_ej:
  "combinaciones [''7271''] 738900 738901 = [(738900, ''7271''), (738901, ''7271'')]"
  "combinaciones [''7271''] 738899 738899 = [(738899, ''7271'')]"
  by (simp_all add: combinaciones_def rango_fechas_def upto_rec_numeral)

lemma pedir_listado_ej:
  "request_with_retries srv_ej (ListarParams 738900 org t) 5 =
     (Some \<lparr>status_code = 200,
            cuerpo = Some (JDict [(''Listado'', JList [JDict [(''Codigo'', JStr ''A'')],
                                                       JDict [(''codigo'', JStr ''B'')]])])\<rparr>,
      [Peticion (ListarParams 738900 org t)])"
  "request_with_retries srv_ej (ListarParams 738901 org t) 5 =
     (Some \<lparr>status_code = 200,
            cuerpo = Some (JDict [(''Listado'', JList [JDict [(''Codigo'', JStr ''A'')],
                                                       JDict [(''Codigo'', JStr ''C'')],
                                                       JDict [(''Codigo'', JStr ''D'')]])])\<rparr>,
      [Peticion (ListarParams 738901 org t)])"
  "request_with_retries srv_ej (ListarParams 738899 org t) 5 =
     (None, [Peticion (ListarParams 738899 org t)])"
  unfolding request_with_retries_def
  by (subst rwr_bucle.simps, simp add: srv_ej_def http_ok_def http_status_def)+

lemmas evaluar_listado =
  listado_de_def ebind_def py_get_def dict_get_def py_or_def codigo_de_def

lemma listar_sec_ej:
  "listar_oc_por_rango srv_ej a_sec ''t'' [''7271''] 738900 738901 orden =
     (Inr [JStr ''A'', JStr ''B'', JStr ''C'', JStr ''D''],
      [Peticion (ListarParams 738900 ''7271'' ''t''), Dormir PausaListado,
       Peticion (ListarParams 738901 ''7271'' ''t''), Dormir PausaListado])"
  by (simp add: listar_oc_por_rango_def celdas_ej a_sec_def pedir_listado_ej evaluar_listado)

lemma listar_sec_vacio_ej:
  "listar_oc_por_rango srv_ej a_sec ''t'' [''7271''] 738899 738899 orden =
     (Inr [], [Peticion (ListarParams 738899 ''7271'' ''t'')])"
  by (simp add: listar_oc_por_rango_def celdas_ej a_sec_def pedir_listado_ej evaluar_listado)

lemma listar_con_ej:
  "listar_oc_por_rango srv_ej a_con ''t'' [''7271''] 738900 738901 rev =
     (Inr [JStr ''A'', JStr ''C'', JStr ''D'', JStr ''B''],
      [Peticion (ListarParams 738901 ''7271'' ''t''), Dormir PausaListado,
       Peticion (ListarParams 738900 ''7271'' ''t''), Dormir PausaListado])"
  by (simp add: listar_oc_por_rango_def listar_concurrente_def procesar_listado_def nuevos_de_def
      celdas_ej a_con_def pedir_listado_ej evaluar_listado)

section \<open>The output table at the end of a run\<close>

lemma descargar_archivo:
  assumes "descargar_detalle_y_escribir L srv a ticket codigos d h orden previo = (None, s, tr)"
    and "fs = filas_aceptadas L srv a ticket d h (if workers a \<le> 1 then codigos else orden codigos)"
  shows "archivo s = (if fs = [] then None else Some (Encabezado COLUMNAS # map Registro fs))"
proof -
  define s' where "s' = foldl (\<lambda>t f. aceptar a f t) (sumidero_inicial previo) fs"
  have s: "s = flush s'" using descargar_bucle[OF assms(1)] assms(2) by (simp add: s'_def)
  have b0: "filas_batch (sumidero_inicial previo) = []" by (simp add: sumidero_inicial_def)
  from foldl_aceptar_volcado[OF volcado_inicial[of previo], where a = a and fs = fs]
  obtain ws where v: "volcado ws s'" and w: "ws @ filas_batch s' = fs"
    unfolding s'_def b0 by auto
  from flush_volcado[OF v] w have "volcado fs (flush s')" by simp
  then show ?thesis using s by (simp add: volcado_def)
qed

text \<open>
  Claim C6, as amended. When discovery returns the identifiers and the fetch phase
  returns, the run ends without an exception and the output path holds a table exactly when
  at least one row was accepted: then the file is the header followed by the accepted rows
  of this run, whatever file was at the path before (it is removed before the first row is
  written). A run that accepts no row leaves no file at the output path.
\<close>

theorem tabla_final:
  assumes "listar_oc_por_rango srv a ticket organismos desde_dt hasta_dt orden_l = (Inr codigos, tr1)"
    and "descargar_detalle_y_escribir L srv a ticket codigos desde_dt hasta_dt orden_d previo
         = (None, s, tr2)"
    and "fs = filas_aceptadas L srv a ticket desde_dt hasta_dt
                (if workers a \<le> 1 then codigos else orden_d codigos)"
  shows "ejecutar L srv a ticket organismos desde_dt hasta_dt orden_l orden_d previo
           = (None, archivo s, tr1 @ tr2)
       \<and> archivo s = (if fs = [] then None else Some (Encabezado COLUMNAS # map Registro fs))"
  using assms(1,2) descargar_archivo[OF assms(2,3)] by (simp add: ejecutar_def)

text \<open>
  The claim as stated fails: a run whose listing request is answered 404 accepts no row,
  removes the file it found and creates none.
\<close>

theorem tabla_final_counterexample:
  "ejecutar L_ej srv_ej a_sec ''t'' [''7271''] 738899 738899 id id
     (Some [Encabezado COLUMNAS, Registro (fila_ej ''Z'' ''13-01-2024'')])
   = (None, None, [Peticion (ListarParams 738899 ''7271'' ''t'')])"
  unfolding ejecutar_def listar_sec_vacio_ej
  by (simp add: descargar_detalle_y_escribir_def a_sec_def sumidero_inicial_def flush_def)

theorem tabla_final_witness:
  "ejecutar L_ej srv_ej a_sec ''t'' [''7271''] 738900 738901 id id
     (Some [Encabezado COLUMNAS, Registro (fila_ej ''Z'' ''13-01-2024'')])
   = (None,
      Some [Encabezado COLUMNAS,
            Registro (fila_ej ''A'' ''15-01-2024''),
            Registro (fila_ej ''C'' ''16-01-2024''),
            Registro (fila_ej ''D'' ''16-01-2024'')],
      [Peticion (ListarParams 738900 ''7271'' ''t''), Dormir PausaListado,
       Peticion (ListarParams 738901 ''7271'' ''t''), Dormir PausaListado,
       Peticion (DetalleParams (JStr ''A'') ''t''), Dormir PausaDetalle,
       Peticion (DetalleParams (JStr ''B'') ''t''),
       Peticion (DetalleParams (JStr ''C'') ''t''), Dormir PausaDetalle,
       Peticion (DetalleParams (JStr ''D'') ''t''), Dormir PausaDetalle])"
proof -
  have r: "retries a_sec = 5" and w: "workers a_sec \<le> 1" by (simp_all add: a_sec_def)
  have fs: "[fila_ej ''A'' ''15-01-2024'', fila_ej ''C'' ''16-01-2024'', fila_ej ''D'' ''16-01-2024'']
            = filas_aceptadas L_ej srv_ej a_sec ''t'' 738900 738901
                (if workers a_sec \<le> 1 then [JStr ''A'', JStr ''B'', JStr ''C'', JStr ''D'']
                 else id [JStr ''A'', JStr ''B'', JStr ''C'', JStr ''D''])"
    unfolding if_P[OF w] aceptadas_ej[OF r] ..
  from tabla_final[where orden_d = id, OF listar_sec_ej[of id]
      descargar_sec_ej[of id "Some [Encabezado COLUMNAS, Registro (fila_ej ''Z'' ''13-01-2024'')]"] fs]
  show ?thesis by (simp add: sumidero_ej_def)
qed

section \<open>Deduplication\<close>

lemma limpio_inicial: "limpio ([], {})"
  by (simp add: limpio_def)

lemma fusionar_limpio:
  "limpio st \<Longrightarrow> fusionar cs st = Inr st' \<Longrightarrow>
   limpio st'
   \<and> set (map py_hash (fst st')) = set (map py_hash (fst st)) \<union> set (map py_hash cs)
   \<and> set (fst st') \<subseteq> set (fst st) \<union> set cs"
proof (induction cs arbitrary: st)
  case Nil
  then show ?case by simp
next
  case (Cons c cs)
  obtain codigos vistos where st: "st = (codigos, vistos)" by (cases st)
  from Cons.prems(2) obtain k where k: "py_hash c = Inr k"
    by (cases "py_hash c") (simp_all add: st)
  show ?case
  proof (cases "k \<in> vistos")
    case True
    with Cons.prems(2) k st have f: "fusionar cs st = Inr st'" by simp
    from True Cons.prems(1) st k have "py_hash c \<in> set (map py_hash (fst st))"
      by (auto simp: limpio_def)
    with Cons.IH[OF Cons.prems(1) f] show ?thesis by auto
  next
    case False
    let ?st1 = "(codigos @ [c], insert k vistos)"
    from False Cons.prems(2) k st have f: "fusionar cs ?st1 = Inr st'" by simp
    from False Cons.prems(1) st k have "limpio ?st1"
      by (auto simp: limpio_def)
    from Cons.IH[OF this f] show ?thesis by (auto simp: st)
  qed
qed

lemma fusionar_todos_limpio:
  "limpio st \<Longrightarrow> fusionar_todos css st = Inr st' \<Longrightarrow>
   limpio st'
   \<and> set (map py_hash (fst st')) = set (map py_hash (fst st)) \<union> set (map py_hash (concat css))
   \<and> set (fst st') \<subseteq> set (fst st) \<union> set (concat css)"
proof (induction css arbitrary: st)
  case Nil
  then show ?case by simp
next
  case (Cons cs css)
  from Cons.prems(2) obtain st1 where f1: "fusionar cs st = Inr st1"
    and f2: "fusionar_todos css st1 = Inr st'"
    by (cases "fusionar cs st") simp_all
  from fusionar_limpio[OF Cons.prems(1) f1] have l1: "limpio st1"
    and h1: "set (map py_hash (fst st1)) = set (map py_hash (fst st)) \<union> set (map py_hash cs)"
    and s1: "set (fst st1) \<subseteq> set (fst st) \<union> set cs" by blast+
  from Cons.IH[OF l1 f2] h1 s1 show ?case by auto
qed

lemma registrar_fusionar:
  "registrar regs st = Inr st' \<Longrightarrow> \<exists>cs. recolectar regs = Inr cs \<and> fusionar cs st = Inr st'"
proof (induction regs arbitrary: st)
  case Nil
  then show ?case by simp
next
  case (Cons registro resto)
  obtain codigos vistos where st: "st = (codigos, vistos)" by (cases st)
  from Cons.prems obtain codigo where c: "codigo_de registro = Inr codigo"
    by (cases "codigo_de registro") (simp_all add: st)
  show ?case
  proof (cases "truthy codigo")
    case False
    with Cons.prems c st have "registrar resto st = Inr st'" by simp
    from Cons.IH[OF this] False c show ?thesis by auto
  next
    case True
    with Cons.prems c st obtain k where k: "py_hash codigo = Inr k"
      by (cases "py_hash codigo") simp_all
    show ?thesis
    proof (cases "k \<in> vistos")
      case dentro: True
      with Cons.prems c st True k have "registrar resto st = Inr st'" by simp
      from Cons.IH[OF this] obtain cs where "recolectar resto = Inr cs" "fusionar cs st = Inr st'"
        by blast
      with True c k dentro st show ?thesis by simp
    next
      case fuera: False
      with Cons.prems c st True k
      have "registrar resto (codigos @ [codigo], insert k vistos) = Inr st'" by simp
      from Cons.IH[OF this] obtain cs where "recolectar resto = Inr cs"
        "fusionar cs (codigos @ [codigo], insert k vistos) = Inr st'" by blast
      with True c k fuera st show ?thesis by simp
    qed
  qed
qed

lemma listar_secuencial_fusionar:
  "listar_secuencial srv a ticket celdas st tr = (Inr codigos, tr') \<Longrightarrow>
   \<exists>vistos. fusionar_todos (map (\<lambda>combo. nuevos_de (procesar_listado srv a ticket combo)) celdas) st
             = Inr (codigos, vistos)"
proof (induction celdas arbitrary: st tr)
  case Nil
  then show ?case by (cases st) simp
next
  case (Cons combo resto)
  obtain dia organismo where combo: "combo = (dia, organismo)" by (cases combo)
  obtain resp evs where r: "request_with_retries srv (ListarParams dia organismo ticket) (retries a) = (resp, evs)"
    by (cases "request_with_retries srv (ListarParams dia organismo ticket) (retries a)")
  show ?case
  proof (cases "listado_de resp")
    case (Inl e)
    with Cons.prems combo r show ?thesis by simp
  next
    case (Inr lo)
    show ?thesis
    proof (cases lo)
      case None
      with Cons.prems combo r Inr
      have "listar_secuencial srv a ticket resto st (tr @ evs) = (Inr codigos, tr')" by simp
      from Cons.IH[OF this] obtain vistos where
        "fusionar_todos (map (\<lambda>combo. nuevos_de (procesar_listado srv a ticket combo)) resto) st
           = Inr (codigos, vistos)" by blast
      moreover have "nuevos_de (procesar_listado srv a ticket combo) = []"
        using combo r Inr None by (simp add: procesar_listado_def nuevos_de_def)
      ultimately show ?thesis by auto
    next
      case (Some listado)
      with Cons.prems combo r Inr obtain st1 where
        e: "ebind (py_iter listado) (\<lambda>regs. registrar regs st) = Inr st1"
        and l: "listar_secuencial srv a ticket resto st1 (tr @ evs @ [Dormir PausaListado])
                = (Inr codigos, tr')"
        by (cases "ebind (py_iter listado) (\<lambda>regs. registrar regs st)") simp_all
      from e obtain regs where it: "py_iter listado = Inr regs" and rg: "registrar regs st = Inr st1"
        by (cases "py_iter listado") (simp_all add: ebind_def)
      from registrar_fusionar[OF rg] obtain cs where rc: "recolectar regs = Inr cs"
        and fu: "fusionar cs st = Inr st1" by blast
      have n: "nuevos_de (procesar_listado srv a ticket combo) = cs"
        using combo r Inr Some it rc by (simp add: procesar_listado_def nuevos_de_def ebind_def)
      from Cons.IH[OF l] obtain vistos where
        "fusionar_todos (map (\<lambda>combo. nuevos_de (procesar_listado srv a ticket combo)) resto) st1
           = Inr (codigos, vistos)" by blast
      with n fu show ?thesis by auto
    qed
  qed
qed

lemma veces_una:
  "distinct (map f xs) \<Longrightarrow> y \<in> set (map f xs) \<Longrightarrow> length (filter (\<lambda>x. f x = y) xs) = 1"
proof (induction xs)
  case Nil
  then show ?case by simp
next
  case (Cons x xs)
  show ?case
  proof (cases "f x = y")
    case True
    from Cons.prems(1) have "f x \<notin> f ` set xs" by simp
    with True have "\<forall>z\<in>set xs. f z \<noteq> y" by blast
    then have "filter (\<lambda>x. f x = y) xs = []"
      by (simp add: filter_empty_conv)
    with True show ?thesis by simp
  next
    case False
    with Cons show ?thesis by auto
  qed
qed

lemma listar_fusionar:
  assumes "fst (listar_oc_por_rango srv a ticket organismos desde_dt hasta_dt orden) = Inr codigos"
  shows "\<exists>vistos. fusionar_todos
           (map (\<lambda>combo. nuevos_de (procesar_listado srv a ticket combo))
              (if workers a \<le> 1 then combinaciones organismos desde_dt hasta_dt
               else orden (combinaciones organismos desde_dt hasta_dt)))
           ([], {}) = Inr (codigos, vistos)"
proof (cases "workers a \<le> 1")
  case True
  obtain res tr where l: "listar_secuencial srv a ticket (combinaciones organismos desde_dt hasta_dt) ([], {}) [] = (res, tr)"
    by (cases "listar_secuencial srv a ticket (combinaciones organismos desde_dt hasta_dt) ([], {}) []")
  with assms True have "res = Inr codigos" by (simp add: listar_oc_por_rango_def)
  with l listar_secuencial_fusionar[of srv a ticket "combinaciones organismos desde_dt hasta_dt" "([], {})" "[]" codigos tr]
  show ?thesis using True by simp
next
  case False
  with assms show ?thesis
    by (auto simp: listar_oc_por_rango_def listar_concurrente_def Let_def comp_def
        split: sum.splits)
qed

text \<open>
  Claim C1, as amended. For every discovery that returns, sequential or concurrent with any
  completion order of the cells: every identifier collected from the listing of a cell that
  is processed without an exception (the truthy values of \<open>Codigo\<close> or, when that is
  absent or empty, \<open>codigo\<close> of its entries) occurs exactly once in the returned
  sequence, however many cells yielded it; no two members of the sequence are equal; and
  the sequence holds nothing but identifiers collected from such cells.
\<close>

theorem sin_duplicados:
  assumes run: "fst (listar_oc_por_rango srv a ticket organismos desde_dt hasta_dt orden) = Inr codigos"
    and perm: "mset (orden (combinaciones organismos desde_dt hasta_dt))
               = mset (combinaciones organismos desde_dt hasta_dt)"
    and celda: "celda \<in> set (combinaciones organismos desde_dt hasta_dt)"
    and listado: "fst (procesar_listado srv a ticket celda) = Inr cs"
    and c: "c \<in> set cs"
  shows "veces c codigos = 1
       \<and> distinct (map py_hash codigos)
       \<and> set codigos \<subseteq> set (hallados srv a ticket (combinaciones organismos desde_dt hasta_dt))"
proof -
  let ?celdas = "combinaciones organismos desde_dt hasta_dt"
  let ?tareas = "if workers a \<le> 1 then ?celdas else orden ?celdas"
  from listar_fusionar[OF run] obtain vistos where
    f: "fusionar_todos (map (\<lambda>combo. nuevos_de (procesar_listado srv a ticket combo)) ?tareas)
          ([], {}) = Inr (codigos, vistos)" by blast
  have "set ?tareas = set ?celdas" using perm by (auto dest: mset_eq_setD)
  then have h: "set (hallados srv a ticket ?tareas) = set (hallados srv a ticket ?celdas)"
    by (simp add: hallados_def)
  have "c \<in> set (nuevos_de (procesar_listado srv a ticket celda))"
    using listado c by (simp add: nuevos_de_def)
  with celda have c': "c \<in> set (hallados srv a ticket ?celdas)"
    unfolding hallados_def by auto
  from fusionar_todos_limpio[OF limpio_inicial f]
  have d: "distinct (map py_hash codigos)"
    and k: "set (map py_hash codigos) = set (map py_hash (hallados srv a ticket ?tareas))"
    and s: "set codigos \<subseteq> set (hallados srv a ticket ?tareas)"
    by (simp_all add: limpio_def hallados_def)
  from c' h k have "py_hash c \<in> set (map py_hash codigos)" by auto
  from veces_una[OF d this] have "veces c codigos = 1" by (simp add: veces_def)
  with d s h show ?thesis by simp
qed

lemma hallados_ej:
  assumes "retries a = 5"
  shows "hallados srv_ej a ''t'' (combinaciones [''7271''] 738900 738901)
         = [JStr ''A'', JStr ''B'', JStr ''A'', JStr ''C'', JStr ''D'']"
  by (simp add: hallados_def celdas_ej procesar_listado_def nuevos_de_def assms
      pedir_listado_ej evaluar_listado)

lemma procesar_listado_ej:
  assumes "retries a = 5"
  shows "fst (procesar_listado srv_ej a ''t'' (738900, ''7271'')) = Inr [JStr ''A'', JStr ''B'']"
  by (simp add: procesar_listado_def assms pedir_listado_ej evaluar_listado)

theorem sin_duplicados_witness:
  "fst (listar_oc_por_rango srv_ej a_sec ''t'' [''7271''] 738900 738901 id)
     = Inr [JStr ''A'', JStr ''B'', JStr ''C'', JStr ''D'']
   \<and> fst (listar_oc_por_rango srv_ej a_con ''t'' [''7271''] 738900 738901 rev)
     = Inr [JStr ''A'', JStr ''C'', JStr ''D'', JStr ''B'']
   \<and> fst (procesar_listado srv_ej a_sec ''t'' (738900, ''7271'')) = Inr [JStr ''A'', JStr ''B'']
   \<and> hallados srv_ej a_sec ''t'' (combinaciones [''7271''] 738900 738901)
     = [JStr ''A'', JStr ''B'', JStr ''A'', JStr ''C'', JStr ''D'']
   \<and> veces (JStr ''A'') [JStr ''A'', JStr ''B'', JStr ''C'', JStr ''D''] = 1
   \<and> veces (JStr ''A'') [JStr ''A'', JStr ''C'', JStr ''D'', JStr ''B''] = 1
   \<and> distinct (map py_hash [JStr ''A'', JStr ''B'', JStr ''C'', JStr ''D''])"
proof -
  have r1: "retries a_sec = 5" and r2: "retries a_con = 5" by (simp_all add: a_sec_def a_con_def)
  have l1: "fst (listar_oc_por_rango srv_ej a_sec ''t'' [''7271''] 738900 738901 id)
            = Inr [JStr ''A'', JStr ''B'', JStr ''C'', JStr ''D'']"
    by (simp add: listar_sec_ej)
  have l2: "fst (listar_oc_por_rango srv_ej a_con ''t'' [''7271''] 738900 738901 rev)
            = Inr [JStr ''A'', JStr ''C'', JStr ''D'', JStr ''B'']"
    by (simp add: listar_con_ej)
  have p1: "mset (id (combinaciones [''7271''] 738900 738901))
            = mset (combinaciones [''7271''] 738900 738901)" by simp
  have p2: "mset (rev (combinaciones [''7271''] 738900 738901))
            = mset (combinaciones [''7271''] 738900 738901)" by simp
  have celda: "(738900, ''7271'') \<in> set (combinaciones [''7271''] 738900 738901)"
    by (simp add: celdas_ej)
  have c: "JStr ''A'' \<in> set [JStr ''A'', JStr ''B'']" by simp
  from sin_duplicados[OF l1 p1 celda procesar_listado_ej[OF r1] c]
    sin_duplicados[OF l2 p2 celda procesar_listado_ej[OF r2] c]
    l1 l2 hallados_ej[OF r1] procesar_listado_ej[OF r1]
  show ?thesis by simp
qed

lemma celda_un_dia: "combinaciones [''7271''] 738900 738900 = [(738900, ''7271'')]"
  by (simp add: combinaciones_def rango_fechas_def upto_rec_numeral)

lemma pedir_mixto:
  "request_with_retries srv_mixto (ListarParams 738900 org t) 5 =
     (Some \<lparr>status_code = 200,
            cuerpo = Some (JDict [(''Listado'', JList [JDict [(''Codigo'', JStr ''A'')], JNum 5])])\<rparr>,
      [Peticion (ListarParams 738900 org t)])"
  unfolding request_with_retries_def
  by (subst rwr_bucle.simps, simp add: srv_mixto_def http_ok_def)

text \<open>
  The claim as stated fails: in concurrent mode a cell whose task raises is logged and
  contributes nothing (\<^verbatim>\<open>except Exception: nuevos = []\<close>). The listing of the
  one cell below holds the entry of \<open>A\<close> and then a number; the task raises
  \<^verbatim>\<open>AttributeError\<close> at the number, after it has collected \<open>A\<close>, and discovery
  returns the empty sequence: \<open>A\<close> appears in a listing result and occurs in the
  returned sequence zero times.
\<close>

theorem sin_duplicados_counterexample:
  "srv_mixto (ListarParams 738900 ''7271'' ''t'') 0
     = http_ok (JDict [(''Listado'', JList [JDict [(''Codigo'', JStr ''A'')], JNum 5])])
   \<and> codigo_de (JDict [(''Codigo'', JStr ''A'')]) = Inr (JStr ''A'')
   \<and> listar_oc_por_rango srv_mixto a_con ''t'' [''7271''] 738900 738900 id
     = (Inr [], [Peticion (ListarParams 738900 ''7271'' ''t'')])
   \<and> veces (JStr ''A'') [] = 0"
  by (simp add: listar_oc_por_rango_def listar_concurrente_def procesar_listado_def nuevos_de_def
      celda_un_dia a_con_def pedir_mixto evaluar_listado srv_mixto_def veces_def)

section \<open>Pacing in the two modes\<close>

lemma listar_con_vacio_ej:
  "listar_oc_por_rango srv_ej a_con ''t'' [''7271''] 738899 738899 id =
     (Inr [], [Peticion (ListarParams 738899 ''7271'' ''t''), Dormir PausaListado])"
  by (simp add: listar_oc_por_rango_def listar_concurrente_def procesar_listado_def nuevos_de_def
      celdas_ej a_con_def pedir_listado_ej evaluar_listado)

text \<open>
  Claim C7 says that the pacing delay follows every request of both phases, whatever its
  outcome, in sequential mode as in concurrent mode. The concurrent tasks do sleep after a
  listing request that is answered 404 and after a detail request whose record the validity
  filter rejects; the sequential loops leave the loop body with \<^verbatim>\<open>continue\<close> on
  the same two requests and never reach the sleep.
\<close>

theorem pausa_omitida:
  "snd (listar_oc_por_rango srv_ej a_sec ''t'' [''7271''] 738899 738899 id)
     = [Peticion (ListarParams 738899 ''7271'' ''t'')]
   \<and> snd (listar_oc_por_rango srv_ej a_con ''t'' [''7271''] 738899 738899 id)
     = [Peticion (ListarParams 738899 ''7271'' ''t''), Dormir PausaListado]
   \<and> snd (snd (descargar_detalle_y_escribir L_ej srv_ej a_sec ''t'' [JStr ''B'']
                  738900 738901 id None))
     = [Peticion (DetalleParams (JStr ''B'') ''t'')]
   \<and> snd (snd (descargar_detalle_y_escribir L_ej srv_ej a_con ''t'' [JStr ''B'']
                  738900 738901 id None))
     = [Peticion (DetalleParams (JStr ''B'') ''t''), Dormir PausaDetalle]"
  unfolding listar_sec_vacio_ej listar_con_vacio_ej
  by (simp add: descargar_detalle_y_escribir_def descargar_concurrente_def procesar_detalle_def
      a_sec_def a_con_def pedir_detalle_ej procesar_ej)

section \<open>The two modes on a record that makes the projection raise\<close>

lemma pedir_roto:
  "request_with_retries srv_roto (ListarParams 738900 org t) 5
     = request_with_retries srv_ej (ListarParams 738900 org t) 5"
  "request_with_retries srv_roto (ListarParams 738901 org t) 5
     = request_with_retries srv_ej (ListarParams 738901 org t) 5"
  "request_with_retries srv_roto (DetalleParams (JStr ''A'') t) 5
     = request_with_retries srv_ej (DetalleParams (JStr ''A'') t) 5"
  "request_with_retries srv_roto (DetalleParams (JStr ''B'') t) 5
     = request_with_retries srv_ej (DetalleParams (JStr ''B'') t) 5"
  "request_with_retries srv_roto (DetalleParams (JStr ''D'') t) 5
     = request_with_retries srv_ej (DetalleParams (JStr ''D'') t) 5"
  unfolding pedir_listado_ej pedir_detalle_ej
  unfolding request_with_retries_def
  by (subst rwr_bucle.simps, simp add: srv_roto_def srv_ej_def http_ok_def)+

lemma pedir_roto_C:
  "request_with_retries srv_roto (DetalleParams (JStr ''C'') t) 5 =
     (Some \<lparr>status_code = 200, cuerpo = Some (JDict [(''Listado'', JList [oc_roto])])\<rparr>,
      [Peticion (DetalleParams (JStr ''C'') t)])"
  unfolding request_with_retries_def
  by (subst rwr_bucle.simps) (simp add: srv_roto_def http_ok_def oc_roto_def)

lemma construir_roto: "construir_fila_oc L oc_roto = Inl AttributeError"
  by (simp add: oc_roto_def construir_fila_oc.simps evaluar_fila)

lemma fecha_roto:
  "parse_fecha_json L_ej (safe_get oc_roto [''Fechas'', ''FechaCreacion'']) = Some 738901"
  by (simp add: oc_roto_def fechas_L_ej)

lemma validar_roto: "validar_y_construir L_ej 738900 738901 oc_roto = Inl AttributeError"
  unfolding validar_y_construir_def fecha_roto construir_roto by (simp add: ebind_def)

lemma procesar_roto:
  "procesar_respuesta L_ej 738900 738901
     (Some \<lparr>status_code = 200, cuerpo = Some (JDict [(''Listado'', JList [oc_roto])])\<rparr>)
   = Inl AttributeError"
  by (simp add: procesar_respuesta_def primer_registro_def ebind_def py_get_def dict_get_def
      py_or_def Let_def validar_roto)

lemma listar_roto:
  "listar_oc_por_rango srv_roto a_sec ''t'' [''7271''] 738900 738901 orden =
     (Inr [JStr ''A'', JStr ''B'', JStr ''C'', JStr ''D''],
      [Peticion (ListarParams 738900 ''7271'' ''t''), Dormir PausaListado,
       Peticion (ListarParams 738901 ''7271'' ''t''), Dormir PausaListado])"
  "listar_oc_por_rango srv_roto a_con ''t'' [''7271''] 738900 738901 id =
     (Inr [JStr ''A'', JStr ''B'', JStr ''C'', JStr ''D''],
      [Peticion (ListarParams 738900 ''7271'' ''t''), Dormir PausaListado,
       Peticion (ListarParams 738901 ''7271'' ''t''), Dormir PausaListado])"
  by (simp_all add: listar_oc_por_rango_def listar_concurrente_def procesar_listado_def
      nuevos_de_def celdas_ej a_sec_def a_con_def pedir_roto pedir_listado_ej evaluar_listado)

lemma descargar_roto_sec:
  "descargar_detalle_y_escribir L_ej srv_roto a_sec ''t''
     [JStr ''A'', JStr ''B'', JStr ''C'', JStr ''D''] 738900 738901 orden None
   = (Some AttributeError,
      \<lparr> escribir_header = True, filas_batch = [fila_ej ''A'' ''15-01-2024''], escritos = 0,
        archivo = None, escrituras = [] \<rparr>,
      [Peticion (DetalleParams (JStr ''A'') ''t''), Dormir PausaDetalle,
       Peticion (DetalleParams (JStr ''B'') ''t''),
       Peticion (DetalleParams (JStr ''C'') ''t'')])"
  by (simp add: descargar_detalle_y_escribir_def a_sec_def pedir_roto pedir_roto_C
      pedir_detalle_ej procesar_ej procesar_roto aceptar_def flush_def sumidero_inicial_def Let_def)

lemma fila_ej_no_vacia: "fila_ej c f \<noteq> []"
  by (simp add: fila_ej_def COLUMNAS_def)

lemma descargar_roto_con:
  "descargar_detalle_y_escribir L_ej srv_roto a_con ''t''
     [JStr ''A'', JStr ''B'', JStr ''C'', JStr ''D''] 738900 738901 id None
   = (None,
      \<lparr> escribir_header = False, filas_batch = [], escritos = 2,
        archivo = Some [Encabezado COLUMNAS,
                        Registro (fila_ej ''A'' ''15-01-2024''),
                        Registro (fila_ej ''D'' ''16-01-2024'')],
        escrituras = [2] \<rparr>,
      [Peticion (DetalleParams (JStr ''A'') ''t''), Dormir PausaDetalle,
       Peticion (DetalleParams (JStr ''B'') ''t''), Dormir PausaDetalle,
       Peticion (DetalleParams (JStr ''C'') ''t''), Dormir PausaDetalle,
       Peticion (DetalleParams (JStr ''D'') ''t''), Dormir PausaDetalle])"
  by (simp add: descargar_detalle_y_escribir_def descargar_concurrente_def procesar_detalle_def
      fila_de_def recibir_def a_con_def pedir_roto pedir_roto_C pedir_detalle_ej procesar_ej
      procesar_roto aceptar_def flush_def sumidero_inicial_def Let_def fila_ej_no_vacia)

text \<open>
  Claim C9 says that the two modes leave the same rows in the output table on the same
  responses. On the server whose record of \<open>C\<close> makes the projection raise, with batch
  size 2, the sequential run ends with the exception before the final flush and leaves no
  table, while the concurrent run, which catches the exception of the task, writes the rows
  of \<open>A\<close> and \<open>D\<close>.
\<close>

theorem modos_divergen:
  "ejecutar L_ej srv_roto a_sec ''t'' [''7271''] 738900 738901 id id None
     = (Some AttributeError, None,
        [Peticion (ListarParams 738900 ''7271'' ''t''), Dormir PausaListado,
         Peticion (ListarParams 738901 ''7271'' ''t''), Dormir PausaListado,
         Peticion (DetalleParams (JStr ''A'') ''t''), Dormir PausaDetalle,
         Peticion (DetalleParams (JStr ''B'') ''t''),
         Peticion (DetalleParams (JStr ''C'') ''t'')])
   \<and> ejecutar L_ej srv_roto a_con ''t'' [''7271''] 738900 738901 id id None
     = (None,
        Some [Encabezado COLUMNAS,
              Registro (fila_ej ''A'' ''15-01-2024''),
              Registro (fila_ej ''D'' ''16-01-2024'')],
        [Peticion (ListarParams 738900 ''7271'' ''t''), Dormir PausaListado,
         Peticion (ListarParams 738901 ''7271'' ''t''), Dormir PausaListado,
         Peticion (DetalleParams (JStr ''A'') ''t''), Dormir PausaDetalle,
         Peticion (DetalleParams (JStr ''B'') ''t''), Dormir PausaDetalle,
         Peticion (DetalleParams (JStr ''C'') ''t''), Dormir PausaDetalle,
         Peticion (DetalleParams (JStr ''D'') ''t''), Dormir PausaDetalle])"
  unfolding ejecutar_def listar_roto
  by (simp add: descargar_roto_sec descargar_roto_con)

section \<open>The validity window on that record\<close>

text \<open>
  Claim C2 says that a record whose creation date equals \<open>desde\<close> or \<open>hasta\<close> does
  produce a row. The record \<open>oc_roto\<close> was created on 16 January 2024, the last day of
  the window 15 to 16 January: the filter lets it through, the projection raises
  \<^verbatim>\<open>AttributeError\<close> on the string in its item list, and no row comes out of it in
  either mode. The sequential phase ends with the exception; the concurrent phase catches
  it and goes on without the record.
\<close>

theorem fila_en_ventana_perdida:
  "parse_fecha_json L_ej (safe_get oc_roto [''Fechas'', ''FechaCreacion'']) = Some 738901
   \<and> validar_y_construir L_ej 738900 738901 oc_roto = Inl AttributeError
   \<and> descargar_detalle_y_escribir L_ej srv_roto a_sec ''t'' [JStr ''C''] 738900 738901 id None
     = (Some AttributeError, sumidero_inicial None, [Peticion (DetalleParams (JStr ''C'') ''t'')])
   \<and> descargar_detalle_y_escribir L_ej srv_roto a_con ''t'' [JStr ''C''] 738900 738901 id None
     = (None, sumidero_inicial None,
        [Peticion (DetalleParams (JStr ''C'') ''t''), Dormir PausaDetalle])"
proof (intro conjI)
  show "parse_fecha_json L_ej (safe_get oc_roto [''Fechas'', ''FechaCreacion'']) = Some 738901"
    by (rule fecha_roto)
  show "validar_y_construir L_ej 738900 738901 oc_roto = Inl AttributeError"
    by (rule validar_roto)
  show "descargar_detalle_y_escribir L_ej srv_roto a_sec ''t'' [JStr ''C''] 738900 738901 id None
     = (Some AttributeError, sumidero_inicial None, [Peticion (DetalleParams (JStr ''C'') ''t'')])"
    by (simp add: descargar_detalle_y_escribir_def a_sec_def pedir_roto_C procesar_roto)
  show "descargar_detalle_y_escribir L_ej srv_roto a_con ''t'' [JStr ''C''] 738900 738901 id None
     = (None, sumidero_inicial None,
        [Peticion (DetalleParams (JStr ''C'') ''t''), Dormir PausaDetalle])"
    by (simp add: descargar_detalle_y_escribir_def descargar_concurrente_def procesar_detalle_def
        fila_de_def recibir_def a_con_def pedir_roto_C procesar_roto flush_def sumidero_inicial_def)
qed

section \<open>The final flush in a phase that an exception ends\<close>

text \<open>
  Claim C3 says that in every run the \<open>M\<close> accepted rows end in the output table and
  that the final flush writes the last, partial batch. With batch size 2 and the
  identifiers \<open>A\<close> and \<open>C\<close>, the row of \<open>A\<close> is accepted and waits in the
  buffer (\<open>M = 1\<close>). In sequential mode the exception that the record of \<open>C\<close>
  raises leaves the function before the final flush: the row stays in the buffer, no write
  takes place and there is no file. In concurrent mode the exception is caught at the task
  boundary and the final flush writes the row, in one write.
\<close>

theorem lote_final_perdido:
  "descargar_detalle_y_escribir L_ej srv_roto a_sec ''t'' [JStr ''A'', JStr ''C''] 738900 738901 id None
     = (Some AttributeError,
        \<lparr> escribir_header = True, filas_batch = [fila_ej ''A'' ''15-01-2024''], escritos = 0,
          archivo = None, escrituras = [] \<rparr>,
        [Peticion (DetalleParams (JStr ''A'') ''t''), Dormir PausaDetalle,
         Peticion (DetalleParams (JStr ''C'') ''t'')])
   \<and> descargar_detalle_y_escribir L_ej srv_roto a_con ''t'' [JStr ''A'', JStr ''C''] 738900 738901 id None
     = (None,
        \<lparr> escribir_header = False, filas_batch = [], escritos = 1,
          archivo = Some [Encabezado COLUMNAS, Registro (fila_ej ''A'' ''15-01-2024'')],
          escrituras = [1] \<rparr>,
        [Peticion (DetalleParams (JStr ''A'') ''t''), Dormir PausaDetalle,
         Peticion (DetalleParams (JStr ''C'') ''t''), Dormir PausaDetalle])"
  by (simp add: descargar_detalle_y_escribir_def descargar_concurrente_def procesar_detalle_def
      fila_de_def recibir_def a_sec_def a_con_def pedir_roto pedir_roto_C pedir_detalle_ej
      procesar_ej procesar_roto aceptar_def flush_def sumidero_inicial_def Let_def fila_ej_no_vacia)

end
